theory Spec2Isabelle
  imports Main "HOL-Library.Word" "HOL-Library.AList"
begin

section \<open>The zoe interpreter: a state-passing embedding of interpreter.ts\<close>

text \<open>
  The interpreter is a tree walker written in TypeScript. Every runtime value is a host
  object \<^verbatim>\<open>{tag, value}\<close> handled by reference, strings are \<^verbatim>\<open>Uint8Array\<close> buffers,
  objects are plain host objects used as dictionaries, and failures are host exceptions.
  The embedding makes all of that explicit: a store of value objects, buffers, dictionaries
  and scope frames is threaded through every function, a reference is an address into it,
  and a thrown exception is an outcome of its own. The evaluator may run forever, so it
  takes a bound on the nesting depth of \<^verbatim>\<open>evaluate\<close> calls and answers \<open>OutOfFuel\<close>
  when the bound is reached.
\<close>

subsection \<open>Syntax trees (the node types interpreter.ts imports from ast.ts)\<close>

text \<open>
  Modelled from the spec: the ast.ts that interpreter.ts imports is not among the sources
  (only an early version of it is). One constructor per \<^verbatim>\<open>NodeType\<close> tag that
  \<^verbatim>\<open>evaluate\<close> dispatches on, with the fields the interpreter reads. A block is given by
  its statement list. A string literal node holds a reference to its \<^verbatim>\<open>Uint8Array\<close> (an
  address in the buffer store); a function literal node carries a label standing for the
  node's identity as a host object (the interpreter compares such nodes with \<^verbatim>\<open>===\<close>).
  The host's \<^verbatim>\<open>number\<close> type is the parameter \<open>'f\<close>.
\<close>

datatype 'f node =
    VarStmt string "'f node"
  | ExprStmt "'f node"
  | BlockStmt "'f node list"
  | ReturnStmt "'f node"
  | IfStmt "('f node \<times> 'f node list) list" "'f node list option"
  | IntegerLiteral int
  | FloatLiteral 'f
  | NullLiteral
  | BooleanLiteral bool
  | StringLiteral nat
  | BinaryExpr "'f node" string "'f node"
  | IdentifierExpr string
  | ObjectLiteralExpr "(string \<times> 'f node option) list"
  | AssignmentExpr "'f node" string "'f node"
  | MemberExpr "'f node" "'f node"
  | CallExpr "'f node" "'f node list"
  | FunctionLiteralExpr nat "string list" "'f node list"
  | UnaryExpr string "'f node"
  | SubscriptExpr "'f node" "'f node"

subsection \<open>Runtime values (runtime.ts)\<close>

datatype ValueType = NULL | FLOAT | INTEGER | BOOLEAN | OBJECT | FUNCTION | STRING | JS_FN

type_synonym byte = "8 word"

text \<open>
  A reference handed around as a \<^verbatim>\<open>RuntimeValue\<close>: the address of a value object, or a
  member of the host's \<^verbatim>\<open>Object.prototype\<close>, which a dictionary lookup can return although
  it is no value object (it has neither \<^verbatim>\<open>tag\<close> nor \<^verbatim>\<open>value\<close>).
\<close>

datatype ref = Addr nat | ObjectPrototype string

text \<open>
  Modelled from the spec: scope.ts is not among the sources. A scope is a frame (its
  address in the store) with an optional reference to a parent frame.
\<close>

datatype Scope_t = Frame nat "Scope_t option"

text \<open>
  The contents of a value object, one constructor per constructor function of runtime.ts.
  An object value holds the address of its dictionary, a string value the address of its
  buffer, a function value the captured scope and the fields of its function literal node
  (label, parameters, statements of the block), a host function value the name under which
  the host knows it.
\<close>

datatype 'f RuntimeValue =
    NullValue
  | FloatValue 'f
  | IntegerValue int
  | BooleanValue bool
  | ObjectValue nat
  | JsFnValue string
  | FunctionValue Scope_t nat "string list" "'f node list"
  | StringValue nat

fun tag :: "'f RuntimeValue \<Rightarrow> ValueType" where
  "tag NullValue = NULL"
| "tag (FloatValue x) = FLOAT"
| "tag (IntegerValue i) = INTEGER"
| "tag (BooleanValue b) = BOOLEAN"
| "tag (ObjectValue m) = OBJECT"
| "tag (JsFnValue f) = JS_FN"
| "tag (FunctionValue c l ps b) = FUNCTION"
| "tag (StringValue b) = STRING"

subsection \<open>The store\<close>

record 'f state =
  heap :: "'f RuntimeValue list"
  objects :: "(string \<times> ref) list list"
  buffers :: "byte list list"
  frames :: "(string \<times> ref) list list"

text \<open>
  What an exception carries. \<open>Error\<close> is \<^verbatim>\<open>new Error(message)\<close> of interpreter.ts,
  \<open>Return\<close> its \<^verbatim>\<open>Return\<close> class, \<open>TypeError\<close> and \<open>RangeError\<close> are thrown by the host
  itself, \<open>UndefinedVariable\<close> and \<open>Redeclaration\<close> are the failures of the scope
  operations.
\<close>

datatype exn =
    Error string
  | Return ref
  | TypeError string
  | RangeError string
  | UndefinedVariable string
  | Redeclaration string

text \<open>
  The outcome of running a piece of the interpreter: it returns, it throws, or the depth
  bound is hit.
\<close>

datatype ('a, 'f) result =
    Normal 'a "'f state"
  | Throw exn "'f state"
  | OutOfFuel

definition andThen ::
  "('a, 'f) result \<Rightarrow> ('a \<Rightarrow> 'f state \<Rightarrow> ('b, 'f) result) \<Rightarrow> ('b, 'f) result" where
  "andThen r k = (case r of
      Normal a st \<Rightarrow> k a st
    | Throw e st \<Rightarrow> Throw e st
    | OutOfFuel \<Rightarrow> OutOfFuel)"

text \<open>
  The host: arithmetic and comparison of its \<^verbatim>\<open>number\<close> type (IEEE doubles, left
  abstract), the numbers \<^verbatim>\<open>0\<close> and \<^verbatim>\<open>-1\<close> the interpreter uses, and the host functions
  a \<^verbatim>\<open>JS_FN\<close> value can stand for.
\<close>

record 'f host =
  fadd :: "'f \<Rightarrow> 'f \<Rightarrow> 'f"
  fsub :: "'f \<Rightarrow> 'f \<Rightarrow> 'f"
  fmul :: "'f \<Rightarrow> 'f \<Rightarrow> 'f"
  fdiv :: "'f \<Rightarrow> 'f \<Rightarrow> 'f"
  fmod :: "'f \<Rightarrow> 'f \<Rightarrow> 'f"
  flt :: "'f \<Rightarrow> 'f \<Rightarrow> bool"
  fgt :: "'f \<Rightarrow> 'f \<Rightarrow> bool"
  feq :: "'f \<Rightarrow> 'f \<Rightarrow> bool"
  fzero :: "'f"
  fminus_one :: "'f"
  callJs :: "string \<Rightarrow> ref list \<Rightarrow> 'f state \<Rightarrow> (ref, 'f) result"

type_synonym 'f evaluator = "'f node \<Rightarrow> Scope_t \<Rightarrow> 'f state \<Rightarrow> (ref, 'f) result"

text \<open>Creating a value object: a new address at the end of the heap.\<close>

definition alloc :: "'f RuntimeValue \<Rightarrow> 'f state \<Rightarrow> (ref, 'f) result" where
  "alloc c st = Normal (Addr (length (heap st))) (st\<lparr>heap := heap st @ [c]\<rparr>)"

fun cell_at :: "'f state \<Rightarrow> ref \<Rightarrow> 'f RuntimeValue option" where
  "cell_at st (Addr a) = (if a < length (heap st) then Some (heap st ! a) else None)"
| "cell_at st (ObjectPrototype k) = None"

text \<open>Reading \<^verbatim>\<open>.tag\<close>: \<open>None\<close> is the host's \<^verbatim>\<open>undefined\<close>.\<close>

definition tag_of :: "'f state \<Rightarrow> ref \<Rightarrow> ValueType option" where
  "tag_of st r = map_option tag (cell_at st r)"

text \<open>Assigning to \<^verbatim>\<open>.value\<close> of a value object.\<close>

fun set_cell :: "ref \<Rightarrow> 'f RuntimeValue \<Rightarrow> 'f state \<Rightarrow> 'f state" where
  "set_cell (Addr a) c st = st\<lparr>heap := (heap st)[a := c]\<rparr>"
| "set_cell (ObjectPrototype k) c st = st"

definition buffer_at :: "'f state \<Rightarrow> nat \<Rightarrow> byte list" where
  "buffer_at st b = (if b < length (buffers st) then buffers st ! b else [])"

definition new_buffer :: "byte list \<Rightarrow> 'f state \<Rightarrow> nat \<times> 'f state" where
  "new_buffer bs st = (length (buffers st), st\<lparr>buffers := buffers st @ [bs]\<rparr>)"

definition object_at :: "'f state \<Rightarrow> nat \<Rightarrow> (string \<times> ref) list" where
  "object_at st m = (if m < length (objects st) then objects st ! m else [])"

definition new_object :: "'f state \<Rightarrow> nat \<times> 'f state" where
  "new_object st = (length (objects st), st\<lparr>objects := objects st @ [[]]\<rparr>)"

definition frame_at :: "'f state \<Rightarrow> nat \<Rightarrow> (string \<times> ref) list" where
  "frame_at st f = (if f < length (frames st) then frames st ! f else [])"

subsection \<open>Host dictionaries\<close>

text \<open>
  The dictionary of an object value is a plain host object, so a lookup that finds no own
  property goes on to \<^verbatim>\<open>Object.prototype\<close>. Its property names on the interpreter's host
  (Deno, which removes \<^verbatim>\<open>__proto__\<close> from it) are these; each of them yields a host object,
  never \<^verbatim>\<open>undefined\<close>.
\<close>

definition objectPrototypeKeys :: "string list" where
  "objectPrototypeKeys =
    [''constructor'', ''__defineGetter__'', ''__defineSetter__'', ''hasOwnProperty'',
     ''__lookupGetter__'', ''__lookupSetter__'', ''isPrototypeOf'', ''propertyIsEnumerable'',
     ''toString'', ''valueOf'', ''toLocaleString'']"

text \<open>\<^verbatim>\<open>m[k]\<close>; \<open>None\<close> is \<^verbatim>\<open>undefined\<close>.\<close>

definition obj_get :: "'f state \<Rightarrow> nat \<Rightarrow> string \<Rightarrow> ref option" where
  "obj_get st m k = (case map_of (object_at st m) k of
      Some v \<Rightarrow> Some v
    | None \<Rightarrow> if k \<in> set objectPrototypeKeys then Some (ObjectPrototype k) else None)"

text \<open>
  \<^verbatim>\<open>m[k] = v\<close>. An own property is overwritten in place or added last; on this host
  that holds of every key, \<^verbatim>\<open>__proto__\<close> included.
\<close>

definition obj_set :: "nat \<Rightarrow> string \<Rightarrow> ref \<Rightarrow> 'f state \<Rightarrow> (unit, 'f) result" where
  "obj_set m k v st =
    Normal () (st\<lparr>objects := (objects st)[m := AList.update k v (object_at st m)]\<rparr>)"

subsection \<open>Host integers and numbers\<close>

text \<open>\<^verbatim>\<open>BigInt\<close> division truncates toward zero; the remainder takes the dividend's sign.\<close>

definition bigint_div :: "int \<Rightarrow> int \<Rightarrow> int" where
  "bigint_div a b = sgn a * sgn b * (\<bar>a\<bar> div \<bar>b\<bar>)"

definition bigint_rem :: "int \<Rightarrow> int \<Rightarrow> int" where
  "bigint_rem a b = sgn a * (\<bar>a\<bar> mod \<bar>b\<bar>)"

text \<open>
  \<^verbatim>\<open>Number(v)\<close> for a \<^verbatim>\<open>BigInt\<close> \<open>v\<close>: the nearest double, ties to even. A double has 53
  significant bits, so \<open>excess_bits\<close> low bits are rounded away; \<open>None\<close> is an infinity.
\<close>

function excess_bits :: "nat \<Rightarrow> nat" where
  "excess_bits a = (if a < 2 ^ 53 then 0 else Suc (excess_bits (a div 2)))"
  by pat_completeness auto
termination
  by (relation "measure id") auto

declare excess_bits.simps [simp del]

definition number_of_bigint :: "int \<Rightarrow> int option" where
  "number_of_bigint v =
    (let a = nat \<bar>v\<bar>;
         e = excess_bits a;
         q = a div 2 ^ e;
         r = a mod 2 ^ e;
         m = (if 2 ^ e < 2 * r \<or> (2 * r = 2 ^ e \<and> odd q) then q + 1 else q) * 2 ^ e
     in if 2 ^ 1024 \<le> m then None else Some (sgn v * int m))"

text \<open>Storing a number into a \<^verbatim>\<open>Uint8Array\<close>: modulo 256, an infinity as 0.\<close>

definition to_uint8 :: "int option \<Rightarrow> byte" where
  "to_uint8 x = (case x of None \<Rightarrow> 0 | Some k \<Rightarrow> word_of_int k)"

text \<open>Decimal digits, for the one message that prints lengths.\<close>

function show_nat :: "nat \<Rightarrow> string" where
  "show_nat n =
    (if n < 10 then [char_of (48 + n)] else show_nat (n div 10) @ [char_of (48 + n mod 10)])"
  by pat_completeness auto
termination
  by (relation "measure id") auto

declare show_nat.simps [simp del]

subsection \<open>Scopes\<close>

text \<open>
  Modelled from the spec: scope.ts is not among the sources. \<open>Scope\<close> allocates an empty
  frame with an optional parent link.
\<close>

definition Scope :: "Scope_t option \<Rightarrow> 'f state \<Rightarrow> Scope_t \<times> 'f state" where
  "Scope parent st = (Frame (length (frames st)) parent, st\<lparr>frames := frames st @ [[]]\<rparr>)"

text \<open>
  Modelled from the spec: scope.ts is not among the sources. \<open>initVar\<close> inserts into the
  current frame; redeclaring a name in the same frame is a runtime error.
\<close>

fun initVar :: "Scope_t \<Rightarrow> string \<Rightarrow> ref \<Rightarrow> 'f state \<Rightarrow> (unit, 'f) result" where
  "initVar (Frame f p) name v st =
    (case map_of (frame_at st f) name of
       Some old \<Rightarrow> Throw (Redeclaration name) st
     | None \<Rightarrow> Normal () (st\<lparr>frames := (frames st)[f := frame_at st f @ [(name, v)]]\<rparr>))"

text \<open>
  Modelled from the spec: scope.ts is not among the sources. \<open>lookupVar\<close> walks the parent
  chain and returns the first binding, the stored reference itself, or fails.
\<close>

fun lookupVar :: "Scope_t \<Rightarrow> string \<Rightarrow> 'f state \<Rightarrow> (ref, 'f) result" where
  "lookupVar (Frame f p) name st =
    (case map_of (frame_at st f) name of
       Some v \<Rightarrow> Normal v st
     | None \<Rightarrow> (case p of
          None \<Rightarrow> Throw (UndefinedVariable name) st
        | Some parent \<Rightarrow> lookupVar parent name st))"

text \<open>
  Modelled from the spec: scope.ts is not among the sources. \<open>assignVar\<close> walks the parent
  chain and overwrites the first existing binding; it never creates one.
\<close>

fun assignVar :: "Scope_t \<Rightarrow> string \<Rightarrow> ref \<Rightarrow> 'f state \<Rightarrow> (unit, 'f) result" where
  "assignVar (Frame f p) name v st =
    (case map_of (frame_at st f) name of
       Some old \<Rightarrow>
         Normal () (st\<lparr>frames := (frames st)[f := AList.update name v (frame_at st f)]\<rparr>)
     | None \<Rightarrow> (case p of
          None \<Rightarrow> Throw (UndefinedVariable name) st
        | Some parent \<Rightarrow> assignVar parent name v st))"

subsection \<open>Expressions (interpreter.ts)\<close>

text \<open>
  Every function below takes the evaluator \<open>ev\<close> for the nodes it recurses into;
  \<open>evaluate\<close> at the end of the section ties the knot. Bound names follow the source.
\<close>

definition evalSubscriptExpr ::
  "'f evaluator \<Rightarrow> 'f node \<Rightarrow> 'f node \<Rightarrow> Scope_t \<Rightarrow> 'f state \<Rightarrow> (ref, 'f) result" where
  "evalSubscriptExpr ev left right scope st =
    andThen (ev left scope st) (\<lambda>lhs st1.
    andThen (ev right scope st1) (\<lambda>rhs st2.
      case cell_at st2 lhs of
        Some (StringValue b) \<Rightarrow>
          (case cell_at st2 rhs of
             Some (IntegerValue i) \<Rightarrow>
               if int (length (buffer_at st2 b)) \<le> i then
                 Throw (Error ''error: attempting to index outside of string range'') st2
               else if 0 \<le> i then
                 alloc (IntegerValue (uint (buffer_at st2 b ! nat i))) st2
               else
                 Throw (TypeError ''Cannot convert undefined to a BigInt'') st2
           | _ \<Rightarrow> Throw (Error ''error: subscript expression expects integer argument'') st2)
      | _ \<Rightarrow> Throw (Error ''error: lhs of subscript expresssion must be a string'') st2))"

text \<open>
  In the last branch the index is negative: the buffer read yields \<^verbatim>\<open>undefined\<close> and the
  host's \<^verbatim>\<open>BigInt(undefined)\<close> throws. An index that passes the bounds check is below the
  length of a buffer, hence below \<open>2 ^ 53\<close>, and \<^verbatim>\<open>Number\<close> leaves it as it is.
\<close>

definition evalUnaryExpr ::
  "'f host \<Rightarrow> 'f evaluator \<Rightarrow> string \<Rightarrow> 'f node \<Rightarrow> Scope_t \<Rightarrow> 'f state \<Rightarrow> (ref, 'f) result" where
  "evalUnaryExpr h ev operator expr scope st =
    andThen (ev expr scope st) (\<lambda>rhs st1.
      if operator = ''!'' then
        (case cell_at st1 rhs of
           Some (BooleanValue b) \<Rightarrow> Normal rhs (set_cell rhs (BooleanValue (\<not> b)) st1)
         | _ \<Rightarrow> Throw (Error (''error: unary operator '' @ [CHR 0x27] @ ''!'' @ [CHR 0x27]
                  @ '' only allowed for boolean values'')) st1)
      else if operator = ''-'' then
        (case cell_at st1 rhs of
           Some (FloatValue x) \<Rightarrow>
             Normal rhs (set_cell rhs (FloatValue (fmul h x (fminus_one h))) st1)
         | Some (IntegerValue i) \<Rightarrow> Normal rhs (set_cell rhs (IntegerValue (i * - 1)) st1)
         | _ \<Rightarrow> Throw (Error (''error: unary operator '' @ [CHR 0x27] @ ''-'' @ [CHR 0x27]
                  @ '' only allowed for float or int values'')) st1)
      else
        Throw (Error (''error: unable to evaluate '' @ [CHR 0x27] @ operator @ [CHR 0x27]
          @ '' as unary operator expression'')) st1)"

text \<open>
  The unchecked casts \<^verbatim>\<open>rhs.value as bigint\<close>, \<^verbatim>\<open>as number\<close>, \<^verbatim>\<open>as Uint8Array\<close>. They are
  applied only after the two tags were found equal; the other branch is never taken.
\<close>

definition as_bigint :: "'f RuntimeValue option \<Rightarrow> int" where
  "as_bigint c = (case c of Some (IntegerValue i) \<Rightarrow> i | _ \<Rightarrow> 0)"

definition as_number :: "'f host \<Rightarrow> 'f RuntimeValue option \<Rightarrow> 'f" where
  "as_number h c = (case c of Some (FloatValue x) \<Rightarrow> x | _ \<Rightarrow> fzero h)"

definition as_Uint8Array :: "'f state \<Rightarrow> 'f RuntimeValue option \<Rightarrow> byte list" where
  "as_Uint8Array st c = (case c of Some (StringValue b) \<Rightarrow> buffer_at st b | _ \<Rightarrow> [])"

text \<open>
  \<^verbatim>\<open>lhs.value === rhs.value\<close>: strict equality of the two payloads. Payloads of different
  host types are never equal; host objects (dictionaries, buffers, function literal nodes,
  host functions) are equal when they are the same object; a reference that is no value
  object has the payload \<^verbatim>\<open>undefined\<close>.
\<close>

definition value_strict_eq ::
  "'f host \<Rightarrow> 'f RuntimeValue option \<Rightarrow> 'f RuntimeValue option \<Rightarrow> bool" where
  "value_strict_eq h l r = (case l of
      None \<Rightarrow> (case r of None \<Rightarrow> True | _ \<Rightarrow> False)
    | Some NullValue \<Rightarrow> (case r of Some NullValue \<Rightarrow> True | _ \<Rightarrow> False)
    | Some (FloatValue x) \<Rightarrow> (case r of Some (FloatValue y) \<Rightarrow> feq h x y | _ \<Rightarrow> False)
    | Some (IntegerValue i) \<Rightarrow> (case r of Some (IntegerValue j) \<Rightarrow> i = j | _ \<Rightarrow> False)
    | Some (BooleanValue a) \<Rightarrow> (case r of Some (BooleanValue b) \<Rightarrow> a = b | _ \<Rightarrow> False)
    | Some (ObjectValue m) \<Rightarrow> (case r of Some (ObjectValue m') \<Rightarrow> m = m' | _ \<Rightarrow> False)
    | Some (JsFnValue f) \<Rightarrow> (case r of Some (JsFnValue f') \<Rightarrow> f = f' | _ \<Rightarrow> False)
    | Some (FunctionValue c n ps b) \<Rightarrow>
        (case r of Some (FunctionValue c' n' ps' b') \<Rightarrow> n = n' | _ \<Rightarrow> False)
    | Some (StringValue b) \<Rightarrow> (case r of Some (StringValue b') \<Rightarrow> b = b' | _ \<Rightarrow> False))"

text \<open>
  The two copy loops of the string case of \<^verbatim>\<open>+\<close>. Reading a \<^verbatim>\<open>Uint8Array\<close> beyond its end
  yields \<^verbatim>\<open>undefined\<close>, which is stored as 0.
\<close>

definition u8_read :: "byte list \<Rightarrow> nat \<Rightarrow> byte option" where
  "u8_read a i = (if i < length a then Some (a ! i) else None)"

definition concat_buffers :: "byte list \<Rightarrow> byte list \<Rightarrow> byte list" where
  "concat_buffers l r =
    (let u8Array = replicate (length l + length r) 0;
         u1 = fold (\<lambda>i a. a[i := l ! i]) [0..<length l] u8Array;
         u2 = fold (\<lambda>i a. a[i := (case u8_read r i of Some x \<Rightarrow> x | None \<Rightarrow> 0)])
                [length l..<length u1] u1
     in u2)"

text \<open>The branches of the operator switch of \<^verbatim>\<open>evalBinaryExpr\<close>, one definition each.\<close>

definition binary_and :: "ref \<Rightarrow> ref \<Rightarrow> 'f state \<Rightarrow> (ref, 'f) result" where
  "binary_and lhs rhs st =
    (case cell_at st lhs of
       Some (BooleanValue a) \<Rightarrow>
         (case cell_at st rhs of
            Some (BooleanValue b) \<Rightarrow> alloc (BooleanValue (a \<and> b)) st
          | _ \<Rightarrow> Throw (Error (''error: both sides of '' @ [CHR 0x27] @ ''and'' @ [CHR 0x27]
                   @ '' operator must be boolean expressions'')) st)
     | _ \<Rightarrow> Throw (Error (''error: both sides of '' @ [CHR 0x27] @ ''and'' @ [CHR 0x27]
              @ '' operator must be boolean expressions'')) st)"

definition binary_or :: "ref \<Rightarrow> ref \<Rightarrow> 'f state \<Rightarrow> (ref, 'f) result" where
  "binary_or lhs rhs st =
    (case cell_at st lhs of
       Some (BooleanValue a) \<Rightarrow>
         (case cell_at st rhs of
            Some (BooleanValue b) \<Rightarrow> alloc (BooleanValue (a \<or> b)) st
          | _ \<Rightarrow> Throw (Error (''error: both sides of '' @ [CHR 0x27] @ ''or'' @ [CHR 0x27]
                   @ '' operator must be boolean expressions'')) st)
     | _ \<Rightarrow> Throw (Error (''error: both sides of '' @ [CHR 0x27] @ ''or'' @ [CHR 0x27]
              @ '' operator must be boolean expressions'')) st)"

text \<open>
  \<^verbatim>\<open><\<close> and \<^verbatim>\<open>>\<close> differ in the comparison and the operator's name in the messages.
\<close>

definition binary_compare ::
  "'f host \<Rightarrow> string \<Rightarrow> (int \<Rightarrow> int \<Rightarrow> bool) \<Rightarrow> ('f \<Rightarrow> 'f \<Rightarrow> bool) \<Rightarrow> ref \<Rightarrow> ref \<Rightarrow> 'f state
    \<Rightarrow> (ref, 'f) result" where
  "binary_compare h operator on_bigint on_number lhs rhs st =
    (if tag_of st lhs \<noteq> tag_of st rhs then
       Throw (Error (''error: operands for '' @ [CHR 0x27] @ operator @ [CHR 0x27]
         @ '' must be of the same type'')) st
     else case cell_at st lhs of
       Some (IntegerValue i) \<Rightarrow>
         alloc (BooleanValue (on_bigint i (as_bigint (cell_at st rhs)))) st
     | Some (FloatValue x) \<Rightarrow>
         alloc (BooleanValue (on_number x (as_number h (cell_at st rhs)))) st
     | _ \<Rightarrow> Throw (Error (''error: operands for '' @ [CHR 0x27] @ operator @ [CHR 0x27]
              @ '' must be of type int or float'')) st)"

definition binary_plus :: "'f host \<Rightarrow> ref \<Rightarrow> ref \<Rightarrow> 'f state \<Rightarrow> (ref, 'f) result" where
  "binary_plus h lhs rhs st =
    (if tag_of st lhs \<noteq> tag_of st rhs then
       Throw (Error (''error: operands for '' @ [CHR 0x27] @ ''+'' @ [CHR 0x27]
         @ '' must be of the same time'')) st
     else case cell_at st lhs of
       Some (IntegerValue i) \<Rightarrow> alloc (IntegerValue (i + as_bigint (cell_at st rhs))) st
     | Some (FloatValue x) \<Rightarrow>
         alloc (FloatValue (fadd h x (as_number h (cell_at st rhs)))) st
     | Some (StringValue b) \<Rightarrow>
         (case new_buffer
                 (concat_buffers (buffer_at st b) (as_Uint8Array st (cell_at st rhs))) st of
            (u8Array, st1) \<Rightarrow> alloc (StringValue u8Array) st1)
     | _ \<Rightarrow> Throw (Error (''error: operands for '' @ [CHR 0x27] @ ''+'' @ [CHR 0x27]
              @ '' must be of type int, float, or string'')) st)"

text \<open>\<^verbatim>\<open>-\<close> and \<^verbatim>\<open>*\<close> differ in the operation and the operator's name in the messages.\<close>

definition binary_arith ::
  "'f host \<Rightarrow> string \<Rightarrow> (int \<Rightarrow> int \<Rightarrow> int) \<Rightarrow> ('f \<Rightarrow> 'f \<Rightarrow> 'f) \<Rightarrow> ref \<Rightarrow> ref \<Rightarrow> 'f state
    \<Rightarrow> (ref, 'f) result" where
  "binary_arith h operator on_bigint on_number lhs rhs st =
    (if tag_of st lhs \<noteq> tag_of st rhs then
       Throw (Error (''error: operands for '' @ [CHR 0x27] @ operator @ [CHR 0x27]
         @ '' must be of the same time'')) st
     else case cell_at st lhs of
       Some (IntegerValue i) \<Rightarrow>
         alloc (IntegerValue (on_bigint i (as_bigint (cell_at st rhs)))) st
     | Some (FloatValue x) \<Rightarrow>
         alloc (FloatValue (on_number x (as_number h (cell_at st rhs)))) st
     | _ \<Rightarrow> Throw (Error (''error: operands for '' @ [CHR 0x27] @ operator @ [CHR 0x27]
              @ '' must be of type int or float'')) st)"

definition binary_divide :: "'f host \<Rightarrow> ref \<Rightarrow> ref \<Rightarrow> 'f state \<Rightarrow> (ref, 'f) result" where
  "binary_divide h lhs rhs st =
    (if tag_of st lhs \<noteq> tag_of st rhs then
       Throw (Error (''error: operands for '' @ [CHR 0x27] @ ''/'' @ [CHR 0x27]
         @ '' must be of the same time'')) st
     else case cell_at st lhs of
       Some (IntegerValue i) \<Rightarrow>
         if as_bigint (cell_at st rhs) = 0 then
           Throw (Error ''error: division by zero not allowed'') st
         else alloc (IntegerValue (bigint_div i (as_bigint (cell_at st rhs)))) st
     | Some (FloatValue x) \<Rightarrow>
         if feq h (as_number h (cell_at st rhs)) (fzero h) then
           Throw (Error ''error: division by zero not allowed'') st
         else alloc (FloatValue (fdiv h x (as_number h (cell_at st rhs)))) st
     | _ \<Rightarrow> Throw (Error (''error: operands for '' @ [CHR 0x27] @ ''/'' @ [CHR 0x27]
              @ '' must be of type int or float'')) st)"

text \<open>
  \<^verbatim>\<open>%\<close> has no check of its own. The host throws a \<^verbatim>\<open>RangeError\<close> for a \<^verbatim>\<open>BigInt\<close>
  remainder by \<^verbatim>\<open>0n\<close>; the remainder of two numbers always yields a number.
\<close>

definition binary_modulo :: "'f host \<Rightarrow> ref \<Rightarrow> ref \<Rightarrow> 'f state \<Rightarrow> (ref, 'f) result" where
  "binary_modulo h lhs rhs st =
    (if tag_of st lhs \<noteq> tag_of st rhs then
       Throw (Error (''error: operands for '' @ [CHR 0x27] @ ''%'' @ [CHR 0x27]
         @ '' must be of the same time'')) st
     else case cell_at st lhs of
       Some (IntegerValue i) \<Rightarrow>
         if as_bigint (cell_at st rhs) = 0 then Throw (RangeError ''Division by zero'') st
         else alloc (IntegerValue (bigint_rem i (as_bigint (cell_at st rhs)))) st
     | Some (FloatValue x) \<Rightarrow>
         alloc (FloatValue (fmod h x (as_number h (cell_at st rhs)))) st
     | _ \<Rightarrow> Throw (Error (''error: operands for '' @ [CHR 0x27] @ ''%'' @ [CHR 0x27]
              @ '' must be of type int or float'')) st)"

definition evalBinaryExpr ::
  "'f host \<Rightarrow> 'f evaluator \<Rightarrow> 'f node \<Rightarrow> string \<Rightarrow> 'f node \<Rightarrow> Scope_t \<Rightarrow> 'f state
    \<Rightarrow> (ref, 'f) result" where
  "evalBinaryExpr h ev left operator right scope st =
    andThen (ev left scope st) (\<lambda>lhs st1.
    andThen (ev right scope st1) (\<lambda>rhs st2.
      if operator = ''and'' then binary_and lhs rhs st2
      else if operator = ''or'' then binary_or lhs rhs st2
      else if operator = ''=='' then
        alloc (BooleanValue (value_strict_eq h (cell_at st2 lhs) (cell_at st2 rhs))) st2
      else if operator = ''!='' then
        alloc (BooleanValue (\<not> value_strict_eq h (cell_at st2 lhs) (cell_at st2 rhs))) st2
      else if operator = ''<'' then binary_compare h ''<'' (<) (flt h) lhs rhs st2
      else if operator = ''>'' then binary_compare h ''>'' (\<lambda>i j. j < i) (fgt h) lhs rhs st2
      else if operator = ''+'' then binary_plus h lhs rhs st2
      else if operator = ''-'' then binary_arith h ''-'' (-) (fsub h) lhs rhs st2
      else if operator = ''*'' then binary_arith h ''*'' (*) (fmul h) lhs rhs st2
      else if operator = ''/'' then binary_divide h lhs rhs st2
      else if operator = ''%'' then binary_modulo h lhs rhs st2
      else Throw (Error (''error: unable to evaluate '' @ [CHR 0x27] @ operator @ [CHR 0x27]
             @ '' as binary operator expression'')) st2))"

definition evalIdentifierExpr :: "string \<Rightarrow> Scope_t \<Rightarrow> 'f state \<Rightarrow> (ref, 'f) result" where
  "evalIdentifierExpr symbol scope st = lookupVar scope symbol st"

fun fillProperties ::
  "'f evaluator \<Rightarrow> nat \<Rightarrow> (string \<times> 'f node option) list \<Rightarrow> Scope_t \<Rightarrow> 'f state
    \<Rightarrow> (unit, 'f) result" where
  "fillProperties ev m [] scope st = Normal () st"
| "fillProperties ev m ((symbol, v) # properties) scope st =
    andThen (case v of None \<Rightarrow> lookupVar scope symbol st | Some e \<Rightarrow> ev e scope st)
      (\<lambda>r st1.
    andThen (obj_set m symbol r st1) (\<lambda>u st2.
    fillProperties ev m properties scope st2))"

definition evalObjectLiteralExpr ::
  "'f evaluator \<Rightarrow> (string \<times> 'f node option) list \<Rightarrow> Scope_t \<Rightarrow> 'f state \<Rightarrow> (ref, 'f) result" where
  "evalObjectLiteralExpr ev properties scope st =
    (case new_object st of (m, st0) \<Rightarrow>
       andThen (fillProperties ev m properties scope st0) (\<lambda>u st1. alloc (ObjectValue m) st1))"

definition evalMemberExpr ::
  "'f evaluator \<Rightarrow> 'f node \<Rightarrow> 'f node \<Rightarrow> Scope_t \<Rightarrow> 'f state \<Rightarrow> (ref, 'f) result" where
  "evalMemberExpr ev left right scope st =
    andThen (ev left scope st) (\<lambda>parentVal st1.
      case cell_at st1 parentVal of
        Some (ObjectValue m) \<Rightarrow>
          (case right of
             IdentifierExpr symbol \<Rightarrow>
               (case obj_get st1 m symbol of
                  None \<Rightarrow> Throw (Error (''error: field '' @ symbol
                            @ '' is not present on calling object'')) st1
                | Some childVal \<Rightarrow> Normal childVal st1)
           | _ \<Rightarrow> Throw (Error ''error: right hand side of dot operator must be an identifier'')
                    st1)
      | _ \<Rightarrow> Throw (Error ''error: dot operator can only be called on type object'') st1)"

text \<open>
  The store of a subscript assignment, \<^verbatim>\<open>lhs.value[Number(rhs.value)] = Number(value.value)\<close>.
  A \<^verbatim>\<open>Uint8Array\<close> ignores a store at an index that is not one of its own.
\<close>

definition buffer_store :: "nat \<Rightarrow> int \<Rightarrow> int \<Rightarrow> 'f state \<Rightarrow> 'f state" where
  "buffer_store b i v st =
    (if 0 \<le> i \<and> i < int (length (buffer_at st b)) then
       st\<lparr>buffers := (buffers st)[b := (buffer_at st b)[nat i := to_uint8 (number_of_bigint v)]]\<rparr>
     else st)"

definition evalAssignmentExpr ::
  "'f evaluator \<Rightarrow> 'f node \<Rightarrow> string \<Rightarrow> 'f node \<Rightarrow> Scope_t \<Rightarrow> 'f state \<Rightarrow> (ref, 'f) result" where
  "evalAssignmentExpr ev assignee operator expr scope st =
    (if operator = ''='' then
       (case assignee of
          IdentifierExpr symbol \<Rightarrow>
            andThen (ev expr scope st) (\<lambda>v st1.
            andThen (assignVar scope symbol v st1) (\<lambda>u st2. Normal v st2))
        | MemberExpr left right \<Rightarrow>
            andThen (ev left scope st) (\<lambda>parentVal st1.
              case cell_at st1 parentVal of
                Some (ObjectValue m) \<Rightarrow>
                  (case right of
                     IdentifierExpr symbol \<Rightarrow>
                       andThen (ev expr scope st1) (\<lambda>v st2.
                       andThen (obj_set m symbol v st2) (\<lambda>u st3. Normal v st3))
                   | _ \<Rightarrow> Throw (Error
                       ''error: right hand side of dot operator must be an identifier'') st1)
              | _ \<Rightarrow> Throw (Error ''error: dot operator can only be called on type object'') st1)
        | SubscriptExpr left right \<Rightarrow>
            andThen (ev left scope st) (\<lambda>lhs st1.
            andThen (ev right scope st1) (\<lambda>rhs st2.
              case cell_at st2 lhs of
                Some (StringValue b) \<Rightarrow>
                  (case cell_at st2 rhs of
                     Some (IntegerValue i) \<Rightarrow>
                       if int (length (buffer_at st2 b)) \<le> i then
                         Throw (Error ''error: attempting to index outside of string range'') st2
                       else
                         andThen (ev expr scope st2) (\<lambda>v st3.
                           case cell_at st3 v of
                             Some (IntegerValue x) \<Rightarrow>
                               Normal v (buffer_store b (as_bigint (cell_at st3 rhs)) x st3)
                           | _ \<Rightarrow> Throw (Error
                               ''error: string index can only be assigned to type integer'') st3)
                   | _ \<Rightarrow> Throw (Error
                       ''error: subscript expression expects integer argument'') st2)
              | _ \<Rightarrow> Throw (Error ''error: lhs of subscript expresssion must be a string'') st2))
        | _ \<Rightarrow> Throw (Error ''error: assignee must be an identifier or object property'') st)
     else
       Throw (Error (''error: unable to evaluate '' @ [CHR 0x27] @ operator @ [CHR 0x27]
         @ '' as assignment expression'')) st)"

subsection \<open>Statements and calls (interpreter.ts)\<close>

text \<open>The statement loop of \<^verbatim>\<open>evalBlockStmt\<close>, and the function itself.\<close>

fun evalStmts :: "'f evaluator \<Rightarrow> 'f node list \<Rightarrow> Scope_t \<Rightarrow> 'f state \<Rightarrow> (unit, 'f) result" where
  "evalStmts ev [] scope st = Normal () st"
| "evalStmts ev (stmt # stmts) scope st =
    andThen (ev stmt scope st) (\<lambda>r st1. evalStmts ev stmts scope st1)"

definition evalBlockStmt ::
  "'f evaluator \<Rightarrow> 'f node list \<Rightarrow> Scope_t \<Rightarrow> 'f state \<Rightarrow> (ref, 'f) result" where
  "evalBlockStmt ev stmts scope st =
    andThen (evalStmts ev stmts scope st) (\<lambda>u st1. alloc NullValue st1)"

text \<open>\<^verbatim>\<open>expr.args.map(...)\<close>: the arguments in order, each in the store the previous one left.\<close>

fun evalArgs :: "'f evaluator \<Rightarrow> 'f node list \<Rightarrow> Scope_t \<Rightarrow> 'f state \<Rightarrow> (ref list, 'f) result" where
  "evalArgs ev [] scope st = Normal [] st"
| "evalArgs ev (expr # exprs) scope st =
    andThen (ev expr scope st) (\<lambda>v st1.
    andThen (evalArgs ev exprs scope st1) (\<lambda>vs st2. Normal (v # vs) st2))"

text \<open>
  The loop that declares the parameters; it runs only when there are as many arguments as
  parameters.
\<close>

fun initParams :: "Scope_t \<Rightarrow> string list \<Rightarrow> ref list \<Rightarrow> 'f state \<Rightarrow> (unit, 'f) result" where
  "initParams newScope (parameter # parameters) (arg # args) st =
    andThen (initVar newScope parameter arg st) (\<lambda>u st1.
    initParams newScope parameters args st1)"
| "initParams newScope parameters args st = Normal () st"

text \<open>
  The second half of \<^verbatim>\<open>evalCallExpr\<close>: what happens once the argument list \<open>args\<close> and the
  callee \<open>fn\<close> are there.
\<close>

definition callFunction ::
  "'f host \<Rightarrow> 'f evaluator \<Rightarrow> ref \<Rightarrow> ref list \<Rightarrow> 'f state \<Rightarrow> (ref, 'f) result" where
  "callFunction h ev fn args st =
    (case cell_at st fn of
       Some (JsFnValue f) \<Rightarrow> callJs h f args st
     | Some (FunctionValue captured label parameters block) \<Rightarrow>
         if length args \<noteq> length parameters then
           Throw (Error (''error: function call expected '' @ show_nat (length parameters)
             @ '' args, received '' @ show_nat (length args))) st
         else
           (case Scope (Some captured) st of (newScope, st1) \<Rightarrow>
              andThen (initParams newScope parameters args st1) (\<lambda>u st2.
                case evalBlockStmt ev block newScope st2 of
                  Normal r st3 \<Rightarrow> alloc NullValue st3
                | Throw e st3 \<Rightarrow>
                    (case e of Return v \<Rightarrow> Normal v st3 | _ \<Rightarrow> Throw e st3)
                | OutOfFuel \<Rightarrow> OutOfFuel))
     | _ \<Rightarrow> Throw (Error ''error: non function types are not callable'') st)"

definition evalCallExpr ::
  "'f host \<Rightarrow> 'f evaluator \<Rightarrow> 'f node \<Rightarrow> 'f node list \<Rightarrow> Scope_t \<Rightarrow> 'f state
    \<Rightarrow> (ref, 'f) result" where
  "evalCallExpr h ev caller exprs scope st =
    andThen (evalArgs ev exprs scope st) (\<lambda>args st1.
    andThen (ev caller scope st1) (\<lambda>fn st2. callFunction h ev fn args st2))"

definition evalVarStmt ::
  "'f evaluator \<Rightarrow> string \<Rightarrow> 'f node \<Rightarrow> Scope_t \<Rightarrow> 'f state \<Rightarrow> (ref, 'f) result" where
  "evalVarStmt ev symbol expr scope st =
    andThen (ev expr scope st) (\<lambda>v st1.
    andThen (initVar scope symbol v st1) (\<lambda>u st2. alloc NullValue st2))"

definition evalExprStmt :: "'f evaluator \<Rightarrow> 'f node \<Rightarrow> Scope_t \<Rightarrow> 'f state \<Rightarrow> (ref, 'f) result" where
  "evalExprStmt ev expr scope st = andThen (ev expr scope st) (\<lambda>v st1. alloc NullValue st1)"

definition evalReturnStmt :: "'f evaluator \<Rightarrow> 'f node \<Rightarrow> Scope_t \<Rightarrow> 'f state \<Rightarrow> (ref, 'f) result" where
  "evalReturnStmt ev expr scope st = andThen (ev expr scope st) (\<lambda>v st1. Throw (Return v) st1)"

text \<open>A block run in a child scope of its own, as both branches of \<^verbatim>\<open>evalIfStmt\<close> do.\<close>

definition evalBlockInChild ::
  "'f evaluator \<Rightarrow> 'f node list \<Rightarrow> Scope_t \<Rightarrow> 'f state \<Rightarrow> (ref, 'f) result" where
  "evalBlockInChild ev stmts scope st =
    (case Scope (Some scope) st of (child, st1) \<Rightarrow> evalBlockStmt ev stmts child st1)"

fun evalIfStmt ::
  "'f evaluator \<Rightarrow> ('f node \<times> 'f node list) list \<Rightarrow> 'f node list option \<Rightarrow> Scope_t \<Rightarrow> 'f state
    \<Rightarrow> (ref, 'f) result" where
  "evalIfStmt ev [] dflt scope st =
    (case dflt of
       Some block \<Rightarrow>
         andThen (evalBlockInChild ev block scope st) (\<lambda>r st1. alloc NullValue st1)
     | None \<Rightarrow> alloc NullValue st)"
| "evalIfStmt ev ((condition, block) # ifs) dflt scope st =
    andThen (ev condition scope st) (\<lambda>rv st1.
      case cell_at st1 rv of
        Some (BooleanValue b) \<Rightarrow>
          if b then andThen (evalBlockInChild ev block scope st1) (\<lambda>r st2. alloc NullValue st2)
          else evalIfStmt ev ifs dflt scope st1
      | _ \<Rightarrow> Throw (Error ''error: if condition must be a boolean expression'') st1)"

text \<open>
  \<^verbatim>\<open>evaluate\<close>: the dispatch on the node's tag. The first argument after the host bounds
  the nesting depth of the calls of \<^verbatim>\<open>evaluate\<close>.
\<close>

primrec evaluate :: "'f host \<Rightarrow> nat \<Rightarrow> 'f node \<Rightarrow> Scope_t \<Rightarrow> 'f state \<Rightarrow> (ref, 'f) result" where
  "evaluate h 0 node scope st = OutOfFuel"
| "evaluate h (Suc n) node scope st =
   (case node of
      VarStmt symbol expr \<Rightarrow> evalVarStmt (evaluate h n) symbol expr scope st
    | ExprStmt expr \<Rightarrow> evalExprStmt (evaluate h n) expr scope st
    | IntegerLiteral i \<Rightarrow> alloc (IntegerValue i) st
    | FloatLiteral x \<Rightarrow> alloc (FloatValue x) st
    | NullLiteral \<Rightarrow> alloc NullValue st
    | BooleanLiteral b \<Rightarrow> (if b then alloc (BooleanValue True) st else alloc (BooleanValue False) st)
    | BinaryExpr left operator right \<Rightarrow>
        evalBinaryExpr h (evaluate h n) left operator right scope st
    | IdentifierExpr symbol \<Rightarrow> evalIdentifierExpr symbol scope st
    | ObjectLiteralExpr properties \<Rightarrow> evalObjectLiteralExpr (evaluate h n) properties scope st
    | AssignmentExpr assignee operator expr \<Rightarrow>
        evalAssignmentExpr (evaluate h n) assignee operator expr scope st
    | MemberExpr left right \<Rightarrow> evalMemberExpr (evaluate h n) left right scope st
    | CallExpr caller args \<Rightarrow> evalCallExpr h (evaluate h n) caller args scope st
    | BlockStmt stmts \<Rightarrow> evalBlockInChild (evaluate h n) stmts scope st
    | FunctionLiteralExpr label parameters block \<Rightarrow>
        alloc (FunctionValue scope label parameters block) st
    | ReturnStmt expr \<Rightarrow> evalReturnStmt (evaluate h n) expr scope st
    | UnaryExpr operator expr \<Rightarrow> evalUnaryExpr h (evaluate h n) operator expr scope st
    | IfStmt ifs dflt \<Rightarrow> evalIfStmt (evaluate h n) ifs dflt scope st
    | StringLiteral b \<Rightarrow> alloc (StringValue b) st
    | SubscriptExpr left right \<Rightarrow> evalSubscriptExpr (evaluate h n) left right scope st)"

fun interpretLoop ::
  "'f evaluator \<Rightarrow> ref \<Rightarrow> 'f node list \<Rightarrow> Scope_t \<Rightarrow> 'f state \<Rightarrow> (ref, 'f) result" where
  "interpretLoop ev lastEval [] scope st = Normal lastEval st"
| "interpretLoop ev lastEval (stmt # stmts) scope st =
    andThen (ev stmt scope st) (\<lambda>r st1. interpretLoop ev r stmts scope st1)"

text \<open>\<^verbatim>\<open>interpret\<close> of the source (the name is a keyword of the proof language).\<close>

definition interpret_stmts ::
  "'f host \<Rightarrow> nat \<Rightarrow> 'f node list \<Rightarrow> Scope_t \<Rightarrow> 'f state \<Rightarrow> (ref, 'f) result" where
  "interpret_stmts h n stmts scope st =
    andThen (alloc NullValue st) (\<lambda>lastEval st0.
      interpretLoop (evaluate h n) lastEval stmts scope st0)"

subsection \<open>A host to run programs on\<close>

text \<open>
  The theorems below hold for every host. To run them on a concrete program a host has to
  be chosen; this one has a number type with a single element and no host functions. None
  of the programs run on it contains a number or calls a host function.
\<close>

definition plain_host :: "unit host" where
  "plain_host = \<lparr>
     fadd = (\<lambda>x y. ()), fsub = (\<lambda>x y. ()), fmul = (\<lambda>x y. ()), fdiv = (\<lambda>x y. ()),
     fmod = (\<lambda>x y. ()), flt = (\<lambda>x y. False), fgt = (\<lambda>x y. False), feq = (\<lambda>x y. True),
     fzero = (), fminus_one = (),
     callJs = (\<lambda>f args st. Throw (Error ''error: no such host function'') st) \<rparr>"

definition empty_state :: "unit state" where
  "empty_state = \<lparr> heap = [], objects = [], buffers = [], frames = [[]] \<rparr>"

definition globalScope :: Scope_t where
  "globalScope = Frame 0 None"

subsection \<open>Comparing runs at different depth bounds\<close>

text \<open>A run that hit the depth bound is below every run; any other run only below itself.\<close>

definition below :: "('a, 'f) result \<Rightarrow> ('a, 'f) result \<Rightarrow> bool" where
  "below r r' = (r = OutOfFuel \<or> r = r')"

section \<open>Properties of the evaluator\<close>

subsection \<open>Unfolding one level of evaluation\<close>

lemma evaluate_node [simp]:
  "evaluate h (Suc n) (VarStmt symbol expr) scope st =
     evalVarStmt (evaluate h n) symbol expr scope st"
  "evaluate h (Suc n) (ExprStmt expr) scope st = evalExprStmt (evaluate h n) expr scope st"
  "evaluate h (Suc n) (BlockStmt stmts) scope st =
     evalBlockInChild (evaluate h n) stmts scope st"
  "evaluate h (Suc n) (ReturnStmt expr) scope st = evalReturnStmt (evaluate h n) expr scope st"
  "evaluate h (Suc n) (IfStmt ifs dflt) scope st = evalIfStmt (evaluate h n) ifs dflt scope st"
  "evaluate h (Suc n) (IdentifierExpr symbol) scope st = evalIdentifierExpr symbol scope st"
  "evaluate h (Suc n) (ObjectLiteralExpr properties) scope st =
     evalObjectLiteralExpr (evaluate h n) properties scope st"
  "evaluate h (Suc n) (AssignmentExpr assignee operator expr) scope st =
     evalAssignmentExpr (evaluate h n) assignee operator expr scope st"
  "evaluate h (Suc n) (MemberExpr left right) scope st =
     evalMemberExpr (evaluate h n) left right scope st"
  "evaluate h (Suc n) (CallExpr caller args) scope st =
     evalCallExpr h (evaluate h n) caller args scope st"
  "evaluate h (Suc n) (UnaryExpr operator expr) scope st =
     evalUnaryExpr h (evaluate h n) operator expr scope st"
  "evaluate h (Suc n) (SubscriptExpr left right) scope st =
     evalSubscriptExpr (evaluate h n) left right scope st"
  "evaluate h (Suc n) NullLiteral scope st = alloc NullValue st"
  "evaluate h (Suc n) (FunctionLiteralExpr label parameters block) scope st =
     alloc (FunctionValue scope label parameters block) st"
  by simp_all

lemma evaluate_BinaryExpr [simp]:
  "evaluate h (Suc n) (BinaryExpr left operator right) scope st =
     evalBinaryExpr h (evaluate h n) left operator right scope st"
  by simp

lemma evaluate_BooleanLiteral [simp]:
  "evaluate h (Suc n) (BooleanLiteral b) scope st = alloc (BooleanValue b) st"
  by simp

lemma evaluate_IntegerLiteral [simp]:
  "evaluate h (Suc n) (IntegerLiteral i) scope st = alloc (IntegerValue i) st"
  by simp

lemma evaluate_FloatLiteral [simp]:
  "evaluate h (Suc n) (FloatLiteral x) scope st = alloc (FloatValue x) st"
  by simp

lemma evaluate_StringLiteral [simp]:
  "evaluate h (Suc n) (StringLiteral b) scope st = alloc (StringValue b) st"
  by simp

declare evaluate.simps(2) [simp del]

lemma evalBinaryExpr_left_throws:
  "ev left scope st = Throw e st1 \<Longrightarrow>
   evalBinaryExpr h ev left operator right scope st = Throw e st1"
  by (simp add: evalBinaryExpr_def andThen_def)

lemma evalBinaryExpr_right_throws:
  "ev left scope st = Normal lhs st1 \<Longrightarrow> ev right scope st1 = Throw e st2 \<Longrightarrow>
   evalBinaryExpr h ev left operator right scope st = Throw e st2"
  by (simp add: evalBinaryExpr_def andThen_def)

lemma evalBinaryExpr_and:
  "ev left scope st = Normal lhs st1 \<Longrightarrow> ev right scope st1 = Normal rhs st2 \<Longrightarrow>
   evalBinaryExpr h ev left ''and'' right scope st = binary_and lhs rhs st2"
  by (simp add: evalBinaryExpr_def andThen_def)

lemma evalBinaryExpr_or:
  "ev left scope st = Normal lhs st1 \<Longrightarrow> ev right scope st1 = Normal rhs st2 \<Longrightarrow>
   evalBinaryExpr h ev left ''or'' right scope st = binary_or lhs rhs st2"
  by (simp add: evalBinaryExpr_def andThen_def)

lemma tag_of_BOOLEAN:
  "tag_of st r = Some BOOLEAN \<longleftrightarrow> (\<exists>b. cell_at st r = Some (BooleanValue b))"
  by (cases "cell_at st r") (auto simp: tag_of_def elim: tag.elims)

lemma binary_and_not_boolean:
  "tag_of st lhs \<noteq> Some BOOLEAN \<or> tag_of st rhs \<noteq> Some BOOLEAN \<Longrightarrow>
   binary_and lhs rhs st = Throw (Error (''error: both sides of '' @ [CHR 0x27] @ ''and''
     @ [CHR 0x27] @ '' operator must be boolean expressions'')) st"
  unfolding tag_of_BOOLEAN binary_and_def
  by (auto split: option.splits RuntimeValue.splits)

lemma binary_or_not_boolean:
  "tag_of st lhs \<noteq> Some BOOLEAN \<or> tag_of st rhs \<noteq> Some BOOLEAN \<Longrightarrow>
   binary_or lhs rhs st = Throw (Error (''error: both sides of '' @ [CHR 0x27] @ ''or''
     @ [CHR 0x27] @ '' operator must be boolean expressions'')) st"
  unfolding tag_of_BOOLEAN binary_or_def
  by (auto split: option.splits RuntimeValue.splits)

subsection \<open>The depth bound only cuts runs off\<close>

text \<open>
  Raising the depth bound never changes an outcome other than \<open>OutOfFuel\<close>: every function
  of the evaluator is monotone in the evaluator it recurses with.
\<close>

lemma below_refl [simp]: "below r r"
  by (simp add: below_def)

lemma below_OutOfFuel [simp]: "below OutOfFuel r"
  by (simp add: below_def)

lemma andThen_below:
  "below r r' \<Longrightarrow> (\<And>a st. below (k a st) (k' a st)) \<Longrightarrow> below (andThen r k) (andThen r' k')"
  by (auto simp: below_def andThen_def split: result.splits)

lemma evalStmts_below:
  assumes E: "\<And>node scope st. below (ev node scope st) (ev' node scope st)"
  shows "below (evalStmts ev stmts scope st) (evalStmts ev' stmts scope st)"
  by (induction stmts arbitrary: st) (auto intro!: andThen_below E)

lemma evalBlockStmt_below:
  assumes E: "\<And>node scope st. below (ev node scope st) (ev' node scope st)"
  shows "below (evalBlockStmt ev stmts scope st) (evalBlockStmt ev' stmts scope st)"
  unfolding evalBlockStmt_def by (intro andThen_below evalStmts_below E) simp_all

lemma evalBlockInChild_below:
  assumes E: "\<And>node scope st. below (ev node scope st) (ev' node scope st)"
  shows "below (evalBlockInChild ev stmts scope st) (evalBlockInChild ev' stmts scope st)"
  unfolding evalBlockInChild_def by (simp add: Scope_def evalBlockStmt_below E)

lemma evalArgs_below:
  assumes E: "\<And>node scope st. below (ev node scope st) (ev' node scope st)"
  shows "below (evalArgs ev args scope st) (evalArgs ev' args scope st)"
  by (induction args arbitrary: st) (auto intro!: andThen_below E)

lemma fillProperties_below:
  assumes E: "\<And>node scope st. below (ev node scope st) (ev' node scope st)"
  shows "below (fillProperties ev m props scope st) (fillProperties ev' m props scope st)"
proof (induction props arbitrary: st)
  case Nil
  show ?case by simp
next
  case (Cons p props)
  obtain symbol v where p: "p = (symbol, v)"
    by (cases p)
  show ?case
    unfolding p fillProperties.simps
    by (cases v) (auto intro!: andThen_below Cons.IH E)
qed

lemma evalIfStmt_below:
  assumes E: "\<And>node scope st. below (ev node scope st) (ev' node scope st)"
  shows "below (evalIfStmt ev ifs dflt scope st) (evalIfStmt ev' ifs dflt scope st)"
proof (induction ifs arbitrary: st)
  case Nil
  show ?case
    by (cases dflt) (auto intro!: andThen_below evalBlockInChild_below E)
next
  case (Cons c ifs)
  obtain condition block where c: "c = (condition, block)"
    by (cases c)
  have k: "below
      (case cell_at st1 rv of
         Some (BooleanValue b) \<Rightarrow>
           if b then andThen (evalBlockInChild ev block scope st1) (\<lambda>r st2. alloc NullValue st2)
           else evalIfStmt ev ifs dflt scope st1
       | _ \<Rightarrow> Throw (Error ''error: if condition must be a boolean expression'') st1)
      (case cell_at st1 rv of
         Some (BooleanValue b) \<Rightarrow>
           if b then andThen (evalBlockInChild ev' block scope st1) (\<lambda>r st2. alloc NullValue st2)
           else evalIfStmt ev' ifs dflt scope st1
       | _ \<Rightarrow> Throw (Error ''error: if condition must be a boolean expression'') st1)"
    for rv st1
    by (auto intro!: andThen_below evalBlockInChild_below E Cons.IH
        split: option.splits RuntimeValue.splits)
  show ?case
    unfolding c evalIfStmt.simps
    by (intro andThen_below E k)
qed

lemma evalSubscriptExpr_below:
  assumes E: "\<And>node scope st. below (ev node scope st) (ev' node scope st)"
  shows "below (evalSubscriptExpr ev l r scope st) (evalSubscriptExpr ev' l r scope st)"
  unfolding evalSubscriptExpr_def by (intro andThen_below E) simp_all

lemma evalUnaryExpr_below:
  assumes E: "\<And>node scope st. below (ev node scope st) (ev' node scope st)"
  shows "below (evalUnaryExpr h ev operator e scope st) (evalUnaryExpr h ev' operator e scope st)"
  unfolding evalUnaryExpr_def by (intro andThen_below E) simp_all

lemma evalBinaryExpr_below:
  assumes E: "\<And>node scope st. below (ev node scope st) (ev' node scope st)"
  shows "below (evalBinaryExpr h ev l operator r scope st)
    (evalBinaryExpr h ev' l operator r scope st)"
  unfolding evalBinaryExpr_def by (intro andThen_below E) simp_all

lemma evalObjectLiteralExpr_below:
  assumes E: "\<And>node scope st. below (ev node scope st) (ev' node scope st)"
  shows "below (evalObjectLiteralExpr ev props scope st)
    (evalObjectLiteralExpr ev' props scope st)"
  unfolding evalObjectLiteralExpr_def
  by (auto simp: new_object_def intro!: andThen_below fillProperties_below E)

lemma evalMemberExpr_below:
  assumes E: "\<And>node scope st. below (ev node scope st) (ev' node scope st)"
  shows "below (evalMemberExpr ev l r scope st) (evalMemberExpr ev' l r scope st)"
  unfolding evalMemberExpr_def by (intro andThen_below E) simp_all

lemma evalVarStmt_below:
  assumes E: "\<And>node scope st. below (ev node scope st) (ev' node scope st)"
  shows "below (evalVarStmt ev symbol e scope st) (evalVarStmt ev' symbol e scope st)"
  unfolding evalVarStmt_def by (intro andThen_below E) simp_all

lemma evalExprStmt_below:
  assumes E: "\<And>node scope st. below (ev node scope st) (ev' node scope st)"
  shows "below (evalExprStmt ev e scope st) (evalExprStmt ev' e scope st)"
  unfolding evalExprStmt_def by (intro andThen_below E) simp_all

lemma evalReturnStmt_below:
  assumes E: "\<And>node scope st. below (ev node scope st) (ev' node scope st)"
  shows "below (evalReturnStmt ev e scope st) (evalReturnStmt ev' e scope st)"
  unfolding evalReturnStmt_def by (intro andThen_below E) simp_all


lemma callFunction_below:
  assumes E: "\<And>node scope st. below (ev node scope st) (ev' node scope st)"
  shows "below (callFunction h ev fn args st) (callFunction h ev' fn args st)"
proof -
  have body: "below
      (case evalBlockStmt ev block newScope st2 of
         Normal r st3 \<Rightarrow> alloc NullValue st3
       | Throw e st3 \<Rightarrow> (case e of Return v \<Rightarrow> Normal v st3 | _ \<Rightarrow> Throw e st3)
       | OutOfFuel \<Rightarrow> OutOfFuel)
      (case evalBlockStmt ev' block newScope st2 of
         Normal r st3 \<Rightarrow> alloc NullValue st3
       | Throw e st3 \<Rightarrow> (case e of Return v \<Rightarrow> Normal v st3 | _ \<Rightarrow> Throw e st3)
       | OutOfFuel \<Rightarrow> OutOfFuel)" for block newScope st2
    using evalBlockStmt_below [of ev ev' block newScope st2, OF E]
    by (auto simp: below_def)
  show ?thesis
  proof (cases "cell_at st fn")
    case None
    then show ?thesis by (simp add: callFunction_def)
  next
    case (Some c)
    then show ?thesis
      by (cases c) (auto simp: callFunction_def Scope_def intro!: andThen_below body)
  qed
qed

lemma evalCallExpr_below:
  assumes E: "\<And>node scope st. below (ev node scope st) (ev' node scope st)"
  shows "below (evalCallExpr h ev c args scope st) (evalCallExpr h ev' c args scope st)"
  unfolding evalCallExpr_def
  by (intro andThen_below E evalArgs_below callFunction_below)

lemma evalAssignmentExpr_below:
  assumes E: "\<And>node scope st. below (ev node scope st) (ev' node scope st)"
  shows "below (evalAssignmentExpr ev a operator e scope st)
    (evalAssignmentExpr ev' a operator e scope st)"
proof (cases "operator = ''=''")
  case False
  then show ?thesis by (simp add: evalAssignmentExpr_def)
next
  case True
  show ?thesis
  proof (cases a)
    case (IdentifierExpr symbol)
    with True show ?thesis
      by (auto simp: evalAssignmentExpr_def intro!: andThen_below E)
  next
    case (MemberExpr l r)
    have k: "below
        (case cell_at st1 parentVal of
           Some (ObjectValue m) \<Rightarrow>
             (case r of
                IdentifierExpr symbol \<Rightarrow>
                  andThen (ev e scope st1) (\<lambda>v st2.
                  andThen (obj_set m symbol v st2) (\<lambda>u st3. Normal v st3))
              | _ \<Rightarrow> Throw (Error
                  ''error: right hand side of dot operator must be an identifier'') st1)
         | _ \<Rightarrow> Throw (Error ''error: dot operator can only be called on type object'') st1)
        (case cell_at st1 parentVal of
           Some (ObjectValue m) \<Rightarrow>
             (case r of
                IdentifierExpr symbol \<Rightarrow>
                  andThen (ev' e scope st1) (\<lambda>v st2.
                  andThen (obj_set m symbol v st2) (\<lambda>u st3. Normal v st3))
              | _ \<Rightarrow> Throw (Error
                  ''error: right hand side of dot operator must be an identifier'') st1)
         | _ \<Rightarrow> Throw (Error ''error: dot operator can only be called on type object'') st1)"
      for parentVal st1
    proof (cases "cell_at st1 parentVal")
      case None
      then show ?thesis by simp
    next
      case (Some c)
      then show ?thesis
        by (cases c; cases r) (auto intro!: andThen_below E)
    qed
    from True MemberExpr show ?thesis
      by (auto simp: evalAssignmentExpr_def intro!: andThen_below E k)
  next
    case (SubscriptExpr l r)
    have k: "below
        (case cell_at st2 lhs of
           Some (StringValue b) \<Rightarrow>
             (case cell_at st2 rhs of
                Some (IntegerValue i) \<Rightarrow>
                  if int (length (buffer_at st2 b)) \<le> i then
                    Throw (Error ''error: attempting to index outside of string range'') st2
                  else
                    andThen (ev e scope st2) (\<lambda>v st3.
                      case cell_at st3 v of
                        Some (IntegerValue x) \<Rightarrow>
                          Normal v (buffer_store b (as_bigint (cell_at st3 rhs)) x st3)
                      | _ \<Rightarrow> Throw (Error
                          ''error: string index can only be assigned to type integer'') st3)
              | _ \<Rightarrow> Throw (Error
                  ''error: subscript expression expects integer argument'') st2)
         | _ \<Rightarrow> Throw (Error ''error: lhs of subscript expresssion must be a string'') st2)
        (case cell_at st2 lhs of
           Some (StringValue b) \<Rightarrow>
             (case cell_at st2 rhs of
                Some (IntegerValue i) \<Rightarrow>
                  if int (length (buffer_at st2 b)) \<le> i then
                    Throw (Error ''error: attempting to index outside of string range'') st2
                  else
                    andThen (ev' e scope st2) (\<lambda>v st3.
                      case cell_at st3 v of
                        Some (IntegerValue x) \<Rightarrow>
                          Normal v (buffer_store b (as_bigint (cell_at st3 rhs)) x st3)
                      | _ \<Rightarrow> Throw (Error
                          ''error: string index can only be assigned to type integer'') st3)
              | _ \<Rightarrow> Throw (Error
                  ''error: subscript expression expects integer argument'') st2)
         | _ \<Rightarrow> Throw (Error ''error: lhs of subscript expresssion must be a string'') st2)"
      for lhs rhs st2
    proof (cases "cell_at st2 lhs")
      case None
      then show ?thesis by simp
    next
      case L: (Some c)
      show ?thesis
      proof (cases "cell_at st2 rhs")
        case None
        with L show ?thesis by (cases c) simp_all
      next
        case (Some d)
        with L show ?thesis
          by (cases c; cases d) (auto intro!: andThen_below E)
      qed
    qed
    from True SubscriptExpr show ?thesis
      by (auto simp: evalAssignmentExpr_def intro!: andThen_below E k)
  qed (simp_all add: evalAssignmentExpr_def True)
qed

lemma evaluate_Suc_below:
  "below (evaluate h n node scope st) (evaluate h (Suc n) node scope st)"
proof (induction n arbitrary: node scope st)
  case 0
  show ?case by simp
next
  case (Suc n)
  note below_rules = evalVarStmt_below evalExprStmt_below evalBlockInChild_below
    evalReturnStmt_below evalIfStmt_below evalBinaryExpr_below evalObjectLiteralExpr_below
    evalAssignmentExpr_below evalMemberExpr_below evalCallExpr_below evalUnaryExpr_below
    evalSubscriptExpr_below
  show ?case
    by (cases node) (simp_all add: below_rules [of "evaluate h n" "evaluate h (Suc n)", OF Suc])
qed

lemma evaluate_more_fuel:
  assumes "evaluate h n node scope st = r" and "r \<noteq> OutOfFuel"
  shows "evaluate h (n + k) node scope st = r"
proof (induction k)
  case 0
  with assms show ?case by simp
next
  case (Suc k)
  have "below (evaluate h (n + k) node scope st) (evaluate h (Suc (n + k)) node scope st)"
    by (rule evaluate_Suc_below)
  with Suc assms(2) show ?case
    by (simp add: below_def)
qed

subsection \<open>Running concrete programs, and the two halves of a call\<close>

text \<open>The definitions a concrete program is run with.\<close>

lemmas run_simps = andThen_def alloc_def tag_of_def as_bigint_def evalSubscriptExpr_def
  evalUnaryExpr_def evalBinaryExpr_def binary_and_def binary_or_def binary_plus_def
  binary_divide_def binary_modulo_def evalIdentifierExpr_def evalObjectLiteralExpr_def
  evalMemberExpr_def evalAssignmentExpr_def evalBlockStmt_def callFunction_def evalCallExpr_def
  evalVarStmt_def evalExprStmt_def evalReturnStmt_def evalBlockInChild_def interpret_stmts_def
  Scope_def frame_at_def buffer_at_def object_at_def new_object_def new_buffer_def obj_get_def
  obj_set_def buffer_store_def empty_state_def globalScope_def

lemma evalArgs_length:
  "evalArgs ev args scope st = Normal vs st1 \<Longrightarrow> length vs = length args"
proof (induction args arbitrary: st vs st1)
  case Nil
  then show ?case by simp
next
  case (Cons a as)
  then show ?case
    by (auto simp: andThen_def split: result.splits)
qed

lemma evalCallExpr_args_throw:
  "evalArgs ev args scope st = Throw e st1 \<Longrightarrow>
   evalCallExpr h ev callee args scope st = Throw e st1"
  by (simp add: evalCallExpr_def andThen_def)

lemma evalCallExpr_callee_throws:
  "evalArgs ev args scope st = Normal vs st1 \<Longrightarrow> ev callee scope st1 = Throw e st2 \<Longrightarrow>
   evalCallExpr h ev callee args scope st = Throw e st2"
  by (simp add: evalCallExpr_def andThen_def)

lemma evalCallExpr_call:
  "evalArgs ev args scope st = Normal vs st1 \<Longrightarrow> ev callee scope st1 = Normal fn st2 \<Longrightarrow>
   evalCallExpr h ev callee args scope st = callFunction h ev fn vs st2"
  by (simp add: evalCallExpr_def andThen_def)

subsection \<open>The logical operators\<close>

text \<open>
  What \<^verbatim>\<open>and\<close> and \<^verbatim>\<open>or\<close> do. The left operand is evaluated and then, in the store the
  left operand left behind and whatever the left value is, the right operand: a failure of
  either operand is the failure of the expression. When both have returned, the expression
  fails with the operator's error unless both results are Booleans; otherwise it returns a
  new Boolean, the conjunction or the disjunction of what the two result objects hold
  \<^emph>\<open>when the operator is applied\<close>, that is, after the right operand has run.
\<close>

lemma and_or_operands_when_applied:
  fixes h :: "'f host"
  assumes "operator = ''and'' \<or> operator = ''or''"
  shows
    "(\<forall>e st1. evaluate h n left scope st = Throw e st1 \<longrightarrow>
        evaluate h (Suc n) (BinaryExpr left operator right) scope st = Throw e st1)
   \<and> (\<forall>lhs st1 e st2.
        evaluate h n left scope st = Normal lhs st1 \<and>
        evaluate h n right scope st1 = Throw e st2 \<longrightarrow>
        evaluate h (Suc n) (BinaryExpr left operator right) scope st = Throw e st2)
   \<and> (\<forall>lhs st1 rhs st2 a b.
        evaluate h n left scope st = Normal lhs st1 \<and>
        evaluate h n right scope st1 = Normal rhs st2 \<and>
        cell_at st2 lhs = Some (BooleanValue a) \<and> cell_at st2 rhs = Some (BooleanValue b) \<longrightarrow>
        evaluate h (Suc n) (BinaryExpr left operator right) scope st =
          Normal (Addr (length (heap st2)))
            (st2\<lparr>heap := heap st2 @
               [BooleanValue (if operator = ''and'' then a \<and> b else a \<or> b)]\<rparr>))
   \<and> (\<forall>lhs st1 rhs st2.
        evaluate h n left scope st = Normal lhs st1 \<and>
        evaluate h n right scope st1 = Normal rhs st2 \<and>
        (tag_of st2 lhs \<noteq> Some BOOLEAN \<or> tag_of st2 rhs \<noteq> Some BOOLEAN) \<longrightarrow>
        evaluate h (Suc n) (BinaryExpr left operator right) scope st =
          Throw (Error (''error: both sides of '' @ [CHR 0x27] @ operator @ [CHR 0x27]
            @ '' operator must be boolean expressions'')) st2)"
proof (intro conjI allI impI)
  fix e st1
  assume "evaluate h n left scope st = Throw e st1"
  then show "evaluate h (Suc n) (BinaryExpr left operator right) scope st = Throw e st1"
    unfolding evaluate_BinaryExpr by (rule evalBinaryExpr_left_throws)
next
  fix lhs st1 e st2
  assume "evaluate h n left scope st = Normal lhs st1 \<and>
        evaluate h n right scope st1 = Throw e st2"
  then show "evaluate h (Suc n) (BinaryExpr left operator right) scope st = Throw e st2"
    unfolding evaluate_BinaryExpr by (simp add: evalBinaryExpr_right_throws)
next
  fix lhs st1 rhs st2 a b
  assume a: "evaluate h n left scope st = Normal lhs st1 \<and>
        evaluate h n right scope st1 = Normal rhs st2 \<and>
        cell_at st2 lhs = Some (BooleanValue a) \<and> cell_at st2 rhs = Some (BooleanValue b)"
  from assms show "evaluate h (Suc n) (BinaryExpr left operator right) scope st =
          Normal (Addr (length (heap st2)))
            (st2\<lparr>heap := heap st2 @
               [BooleanValue (if operator = ''and'' then a \<and> b else a \<or> b)]\<rparr>)"
  proof
    assume "operator = ''and''"
    with a show ?thesis
      unfolding evaluate_BinaryExpr
      by (simp add: evalBinaryExpr_and binary_and_def alloc_def)
  next
    assume "operator = ''or''"
    with a show ?thesis
      unfolding evaluate_BinaryExpr
      by (simp add: evalBinaryExpr_or binary_or_def alloc_def)
  qed
next
  fix lhs st1 rhs st2
  assume a: "evaluate h n left scope st = Normal lhs st1 \<and>
        evaluate h n right scope st1 = Normal rhs st2 \<and>
        (tag_of st2 lhs \<noteq> Some BOOLEAN \<or> tag_of st2 rhs \<noteq> Some BOOLEAN)"
  from assms show "evaluate h (Suc n) (BinaryExpr left operator right) scope st =
          Throw (Error (''error: both sides of '' @ [CHR 0x27] @ operator @ [CHR 0x27]
            @ '' operator must be boolean expressions'')) st2"
  proof
    assume "operator = ''and''"
    with a show ?thesis
      unfolding evaluate_BinaryExpr
      using binary_and_not_boolean [of st2 lhs rhs]
      by (simp add: evalBinaryExpr_and)
  next
    assume "operator = ''or''"
    with a show ?thesis
      unfolding evaluate_BinaryExpr
      using binary_or_not_boolean [of st2 lhs rhs]
      by (simp add: evalBinaryExpr_or)
  qed
qed

text \<open>
  No short circuit: \<^verbatim>\<open>false and 1 / 0\<close> fails with the error of its right operand, and
  \<^verbatim>\<open>true or false\<close> returns a new \<^verbatim>\<open>true\<close>.
\<close>

lemma and_or_no_short_circuit:
  "evaluate plain_host (Suc (Suc (Suc 0)))
     (BinaryExpr (BooleanLiteral False) ''and''
        (BinaryExpr (IntegerLiteral 1) ''/'' (IntegerLiteral 0))) globalScope empty_state =
     Throw (Error ''error: division by zero not allowed'')
       \<lparr>heap = [BooleanValue False, IntegerValue 1, IntegerValue 0], objects = [],
        buffers = [], frames = [[]]\<rparr>
   \<and> evaluate plain_host (Suc (Suc (Suc 0)))
     (BinaryExpr (BooleanLiteral True) ''or'' (BooleanLiteral False)) globalScope empty_state =
     Normal (Addr 2)
       \<lparr>heap = [BooleanValue True, BooleanValue False, BooleanValue True], objects = [],
        buffers = [], frames = [[]]\<rparr>"
proof -
  let ?s1 = "\<lparr>heap = [BooleanValue False], objects = [], buffers = [], frames = [[]]\<rparr> :: unit state"
  have l: "evaluate plain_host (Suc (Suc 0)) (BooleanLiteral False) globalScope empty_state =
      Normal (Addr 0) ?s1"
    by (simp add: evalBinaryExpr_def andThen_def alloc_def binary_divide_def tag_of_def
        as_bigint_def empty_state_def)
  have r: "evaluate plain_host (Suc (Suc 0))
      (BinaryExpr (IntegerLiteral 1) ''/'' (IntegerLiteral 0)) globalScope ?s1 =
      Throw (Error ''error: division by zero not allowed'')
       \<lparr>heap = [BooleanValue False, IntegerValue 1, IntegerValue 0], objects = [],
        buffers = [], frames = [[]]\<rparr>"
    by (simp add: evalBinaryExpr_def andThen_def alloc_def binary_divide_def tag_of_def
        as_bigint_def empty_state_def)
  let ?t1 = "\<lparr>heap = [BooleanValue True], objects = [], buffers = [], frames = [[]]\<rparr> :: unit state"
  let ?t2 = "\<lparr>heap = [BooleanValue True, BooleanValue False], objects = [], buffers = [], frames = [[]]\<rparr> :: unit state"
  have l': "evaluate plain_host (Suc (Suc 0)) (BooleanLiteral True) globalScope empty_state =
      Normal (Addr 0) ?t1"
    by (simp add: evalBinaryExpr_def andThen_def alloc_def binary_divide_def tag_of_def
        as_bigint_def empty_state_def)
  have r': "evaluate plain_host (Suc (Suc 0)) (BooleanLiteral False) globalScope ?t1 =
      Normal (Addr 1) ?t2"
    by (simp add: evalBinaryExpr_def andThen_def alloc_def binary_divide_def tag_of_def
        as_bigint_def empty_state_def)
  have c: "cell_at ?t2 (Addr 0) = Some (BooleanValue True) \<and> cell_at ?t2 (Addr 1) = Some (BooleanValue False)"
    by simp
  from and_or_operands_when_applied [of "''and''" plain_host "Suc (Suc 0)" "BooleanLiteral False"
      globalScope empty_state "BinaryExpr (IntegerLiteral 1) ''/'' (IntegerLiteral 0)"] l r
  have 1: "evaluate plain_host (Suc (Suc (Suc 0)))
     (BinaryExpr (BooleanLiteral False) ''and''
        (BinaryExpr (IntegerLiteral 1) ''/'' (IntegerLiteral 0))) globalScope empty_state =
     Throw (Error ''error: division by zero not allowed'')
       \<lparr>heap = [BooleanValue False, IntegerValue 1, IntegerValue 0], objects = [],
        buffers = [], frames = [[]]\<rparr>"
    by blast
  from and_or_operands_when_applied [of "''or''" plain_host "Suc (Suc 0)" "BooleanLiteral True"
      globalScope empty_state "BooleanLiteral False"] l' r' c
  have 2: "evaluate plain_host (Suc (Suc (Suc 0)))
     (BinaryExpr (BooleanLiteral True) ''or'' (BooleanLiteral False)) globalScope empty_state =
     Normal (Addr (length (heap ?t2))) (?t2\<lparr>heap := heap ?t2 @ [BooleanValue (if ''or'' = ''and'' then True \<and> False else True \<or> False)]\<rparr>)"
    by blast
  from 1 2 show ?thesis by simp
qed

text \<open>
  Claim C9 (the code departs from it). Both operands are evaluated, left first, and a
  result that is not a Boolean is an error, but the result is not always the conjunction
  or disjunction of the two values the operands evaluated to. The operator reads the left
  result object after the right operand has run, and \<^verbatim>\<open>evalUnaryExpr\<close> negates in place
  (the defect shown for claim C3). In the store after \<^verbatim>\<open>var x = true;\<close> the operand \<open>x\<close>
  evaluates to an object holding \<^verbatim>\<open>true\<close> and \<^verbatim>\<open>!x\<close> to one holding \<^verbatim>\<open>false\<close>, yet
  \<^verbatim>\<open>x or !x\<close> returns \<^verbatim>\<open>false\<close>; so \<^verbatim>\<open>var x = true; var y = x or !x;\<close> leaves \<open>y\<close>
  holding \<^verbatim>\<open>false\<close>.
\<close>

theorem or_reads_left_operand_late:
  "evaluate plain_host (Suc 0) (IdentifierExpr ''x'') globalScope
     \<lparr>heap = [NullValue, BooleanValue True, NullValue], objects = [], buffers = [],
      frames = [[(''x'', Addr 1)]]\<rparr> =
   Normal (Addr 1)
     \<lparr>heap = [NullValue, BooleanValue True, NullValue], objects = [], buffers = [],
      frames = [[(''x'', Addr 1)]]\<rparr>
   \<and> evaluate plain_host (Suc (Suc 0)) (UnaryExpr ''!'' (IdentifierExpr ''x'')) globalScope
     \<lparr>heap = [NullValue, BooleanValue True, NullValue], objects = [], buffers = [],
      frames = [[(''x'', Addr 1)]]\<rparr> =
   Normal (Addr 1)
     \<lparr>heap = [NullValue, BooleanValue False, NullValue], objects = [], buffers = [],
      frames = [[(''x'', Addr 1)]]\<rparr>
   \<and> evaluate plain_host (Suc (Suc (Suc 0)))
     (BinaryExpr (IdentifierExpr ''x'') ''or'' (UnaryExpr ''!'' (IdentifierExpr ''x'')))
     globalScope
     \<lparr>heap = [NullValue, BooleanValue True, NullValue], objects = [], buffers = [],
      frames = [[(''x'', Addr 1)]]\<rparr> =
   Normal (Addr 3)
     \<lparr>heap = [NullValue, BooleanValue False, NullValue, BooleanValue False], objects = [],
      buffers = [], frames = [[(''x'', Addr 1)]]\<rparr>
   \<and> interpret_stmts plain_host (Suc (Suc (Suc (Suc 0))))
     [VarStmt ''x'' (BooleanLiteral True),
      VarStmt ''y'' (BinaryExpr (IdentifierExpr ''x'') ''or''
        (UnaryExpr ''!'' (IdentifierExpr ''x'')))] globalScope empty_state =
   Normal (Addr 4)
     \<lparr>heap = [NullValue, BooleanValue False, NullValue, BooleanValue False, NullValue],
      objects = [], buffers = [], frames = [[(''x'', Addr 1), (''y'', Addr 3)]]\<rparr>"
  by (simp add: run_simps)

subsection \<open>The order of evaluation in a call\<close>

text \<open>
  Claim C2 says that the callee of a call is evaluated before any argument. Were it so, a
  call whose callee fails in the current store would fail with the callee's error. It does
  not: the callee \<^verbatim>\<open>1 / 0\<close> fails by itself with the division error, but the call
  \<^verbatim>\<open>(1 / 0)(1 and 1)\<close> fails with the error of its argument, and the store it leaves holds
  the argument's two literals only: the callee was never evaluated.
\<close>

theorem call_callee_first_counterexample:
  "evaluate plain_host (Suc (Suc 0))
     (BinaryExpr (IntegerLiteral 1) ''/'' (IntegerLiteral 0)) globalScope empty_state =
     Throw (Error ''error: division by zero not allowed'')
       \<lparr>heap = [IntegerValue 1, IntegerValue 0], objects = [], buffers = [], frames = [[]]\<rparr>
   \<and> evaluate plain_host (Suc (Suc (Suc 0)))
     (CallExpr (BinaryExpr (IntegerLiteral 1) ''/'' (IntegerLiteral 0))
        [BinaryExpr (IntegerLiteral 1) ''and'' (IntegerLiteral 1)]) globalScope empty_state =
     Throw (Error (''error: both sides of '' @ [CHR 0x27] @ ''and'' @ [CHR 0x27]
              @ '' operator must be boolean expressions''))
       \<lparr>heap = [IntegerValue 1, IntegerValue 1], objects = [], buffers = [], frames = [[]]\<rparr>"
  by (simp add: run_simps)

text \<open>
  Claim C2, amended. A call first evaluates its argument expressions, left to right, each
  in the store its predecessor left, into a list of as many values; a failure of an
  argument is the failure of the call. Then it evaluates the callee, in the store the
  arguments left; a failure of the callee is the failure of the call. Only then the call
  is performed, on the callee's value and the list of argument values.
\<close>

theorem call_arguments_before_callee:
  fixes h :: "'f host"
  shows
    "(\<forall>e st1. evalArgs (evaluate h n) args scope st = Throw e st1 \<longrightarrow>
        evaluate h (Suc n) (CallExpr callee args) scope st = Throw e st1)
   \<and> (\<forall>vs st1 e st2.
        evalArgs (evaluate h n) args scope st = Normal vs st1 \<and>
        evaluate h n callee scope st1 = Throw e st2 \<longrightarrow>
        evaluate h (Suc n) (CallExpr callee args) scope st = Throw e st2)
   \<and> (\<forall>vs st1 fn st2.
        evalArgs (evaluate h n) args scope st = Normal vs st1 \<and>
        evaluate h n callee scope st1 = Normal fn st2 \<longrightarrow>
        length vs = length args \<and>
        evaluate h (Suc n) (CallExpr callee args) scope st =
          callFunction h (evaluate h n) fn vs st2)
   \<and> evalArgs (evaluate h n) [] scope st = Normal [] st
   \<and> (\<forall>e st1. evaluate h n expr scope st = Throw e st1 \<longrightarrow>
        evalArgs (evaluate h n) (expr # exprs) scope st = Throw e st1)
   \<and> (\<forall>v st1 e st2.
        evaluate h n expr scope st = Normal v st1 \<and>
        evalArgs (evaluate h n) exprs scope st1 = Throw e st2 \<longrightarrow>
        evalArgs (evaluate h n) (expr # exprs) scope st = Throw e st2)
   \<and> (\<forall>v st1 vs st2.
        evaluate h n expr scope st = Normal v st1 \<and>
        evalArgs (evaluate h n) exprs scope st1 = Normal vs st2 \<longrightarrow>
        evalArgs (evaluate h n) (expr # exprs) scope st = Normal (v # vs) st2)"
  by (auto simp: evalCallExpr_args_throw evalCallExpr_callee_throws evalCallExpr_call
      andThen_def dest: evalArgs_length)

text \<open>The theorem at work on \<^verbatim>\<open>(fn (a) { return a; })(7)\<close>.\<close>

theorem call_arguments_before_callee_witness:
  "evaluate plain_host (Suc (Suc (Suc (Suc 0))))
     (CallExpr (FunctionLiteralExpr 0 [''a''] [ReturnStmt (IdentifierExpr ''a'')])
        [IntegerLiteral 7]) globalScope empty_state =
   Normal (Addr 0)
     \<lparr>heap = [IntegerValue 7, FunctionValue globalScope 0 [''a''] [ReturnStmt (IdentifierExpr ''a'')]],
      objects = [], buffers = [], frames = [[], [(''a'', Addr 0)]]\<rparr>"
proof -
  let ?n = "Suc (Suc (Suc 0))"
  let ?s1 = "\<lparr>heap = [IntegerValue 7], objects = [], buffers = [], frames = [[]]\<rparr> :: unit state"
  let ?s2 = "\<lparr>heap = [IntegerValue 7, FunctionValue globalScope 0 [''a''] [ReturnStmt (IdentifierExpr ''a'')]],
      objects = [], buffers = [], frames = [[]]\<rparr> :: unit state"
  have a: "evalArgs (evaluate plain_host ?n) [IntegerLiteral 7] globalScope empty_state =
      Normal [Addr 0] ?s1"
    by (simp add: run_simps)
  have c: "evaluate plain_host ?n
      (FunctionLiteralExpr 0 [''a''] [ReturnStmt (IdentifierExpr ''a'')]) globalScope ?s1 =
      Normal (Addr 1) ?s2"
    by (simp add: run_simps)
  have "evaluate plain_host (Suc ?n)
     (CallExpr (FunctionLiteralExpr 0 [''a''] [ReturnStmt (IdentifierExpr ''a'')])
        [IntegerLiteral 7]) globalScope empty_state =
     callFunction plain_host (evaluate plain_host ?n) (Addr 1) [Addr 0] ?s2"
    using call_arguments_before_callee [of plain_host ?n "[IntegerLiteral 7]" globalScope
        empty_state "FunctionLiteralExpr 0 [''a''] [ReturnStmt (IdentifierExpr ''a'')]"] a c
    by blast
  also have "\<dots> = Normal (Addr 0)
     \<lparr>heap = [IntegerValue 7, FunctionValue globalScope 0 [''a''] [ReturnStmt (IdentifierExpr ''a'')]],
      objects = [], buffers = [], frames = [[], [(''a'', Addr 0)]]\<rparr>"
    by (simp add: run_simps)
  finally show ?thesis .
qed

subsection \<open>Calling a function value\<close>











text \<open>
  The theorem at work on a closure called from a scope that is not the one it captured.
  After \<^verbatim>\<open>var make = fn (n) { return fn (a) { return n; }; }; var c = make(10);\<close> the
  variable \<open>c\<close> holds a function whose captured scope is the frame of the call of
  \<open>make\<close>, where \<open>n\<close> is 10. The store below is the one inside a following block
  \<^verbatim>\<open>{ var n = 99; ... }\<close>: the caller's scope is the frame of the block, where \<open>n\<close> is 99.
  There \<^verbatim>\<open>c(1)\<close> returns the value object of 10, found through the parent link of the new
  frame to the captured scope, and \<^verbatim>\<open>c()\<close> fails with the arity error.
\<close>

lemma closure_called_in_block:
  "interpret_stmts plain_host (Suc (Suc (Suc (Suc (Suc (Suc (Suc 0)))))))
     [VarStmt ''make'' (FunctionLiteralExpr 0 [''n'']
        [ReturnStmt (FunctionLiteralExpr 1 [''a''] [ReturnStmt (IdentifierExpr ''n'')])]),
      VarStmt ''c'' (CallExpr (IdentifierExpr ''make'') [IntegerLiteral 10]),
      BlockStmt [VarStmt ''n'' (IntegerLiteral 99),
                 VarStmt ''r'' (CallExpr (IdentifierExpr ''c'') [IntegerLiteral 1])]]
     globalScope empty_state =
   Normal (Addr 10)
     \<lparr>heap = [NullValue,
              FunctionValue globalScope 0 [''n'']
                [ReturnStmt (FunctionLiteralExpr 1 [''a''] [ReturnStmt (IdentifierExpr ''n'')])],
              NullValue, IntegerValue 10,
              FunctionValue (Frame 1 (Some globalScope)) 1 [''a'']
                [ReturnStmt (IdentifierExpr ''n'')],
              NullValue, IntegerValue 99, NullValue, IntegerValue 1, NullValue, NullValue],
      objects = [], buffers = [],
      frames = [[(''make'', Addr 1), (''c'', Addr 4)], [(''n'', Addr 3)],
                [(''n'', Addr 6), (''r'', Addr 3)], [(''a'', Addr 8)]]\<rparr>"
  by (simp add: run_simps)


subsection \<open>Assigning to a position of a string\<close>

lemma excess_bits_small: "a < 2 ^ 53 \<Longrightarrow> excess_bits a = 0"
  by (simp add: excess_bits.simps)

lemma excess_bits_2_53: "excess_bits (2 ^ 53) = Suc 0"
  by (subst excess_bits.simps) (simp add: excess_bits_small)

lemma number_of_bigint_exact:
  assumes "\<bar>x\<bar> \<le> 2 ^ 53"
  shows "number_of_bigint x = Some x"
proof (cases "\<bar>x\<bar> = 2 ^ 53")
  case True
  then have a: "nat \<bar>x\<bar> = 2 ^ 53"
    by (simp add: nat_eq_iff)
  have "(2::nat) ^ 54 < 2 ^ 1024"
    by (rule power_strict_increasing) simp_all
  then have "\<not> (2::nat) ^ 1024 \<le> 2 ^ 53 div 2 * 2"
    by simp
  moreover have "sgn x * 2 ^ 53 = x"
    using True by (cases "x < 0") (simp_all add: sgn_if)
  ultimately show ?thesis
    unfolding number_of_bigint_def a excess_bits_2_53 Let_def
    by simp
next
  case False
  with assms have lt: "nat \<bar>x\<bar> < 2 ^ 53"
    by (simp add: nat_less_iff)
  have "(2::nat) ^ 53 < 2 ^ 1024"
    by (rule power_strict_increasing) simp_all
  with lt have "\<not> 2 ^ 1024 \<le> nat \<bar>x\<bar>"
    by simp
  moreover have "sgn x * \<bar>x\<bar> = x"
    by (simp add: sgn_if)
  ultimately show ?thesis
    unfolding number_of_bigint_def excess_bits_small [OF lt] Let_def
    by simp
qed

lemma to_uint8_exact:
  "\<bar>x\<bar> \<le> 2 ^ 53 \<Longrightarrow> uint (to_uint8 (number_of_bigint x)) = x mod 256"
  by (simp add: number_of_bigint_exact to_uint8_def uint_word_of_int)

lemma tag_of_STRING:
  "tag_of st r = Some STRING \<longleftrightarrow> (\<exists>b. cell_at st r = Some (StringValue b))"
  by (cases "cell_at st r") (auto simp: tag_of_def elim: tag.elims)

lemma tag_of_INTEGER:
  "tag_of st r = Some INTEGER \<longleftrightarrow> (\<exists>i. cell_at st r = Some (IntegerValue i))"
  by (cases "cell_at st r") (auto simp: tag_of_def elim: tag.elims)

text \<open>The subscript case of \<^verbatim>\<open>evalAssignmentExpr\<close>, once target and index are evaluated.\<close>

lemma assign_subscript_not_string:
  assumes "ev left scope st = Normal lhs st1" and "ev right scope st1 = Normal rhs st2"
    and "tag_of st2 lhs \<noteq> Some STRING"
  shows "evalAssignmentExpr ev (SubscriptExpr left right) ''='' expr scope st =
    Throw (Error ''error: lhs of subscript expresssion must be a string'') st2"
  using assms unfolding tag_of_STRING
  by (auto simp: evalAssignmentExpr_def andThen_def split: option.splits RuntimeValue.splits)

lemma assign_subscript_not_integer:
  assumes "ev left scope st = Normal lhs st1" and "ev right scope st1 = Normal rhs st2"
    and "cell_at st2 lhs = Some (StringValue b)" and "tag_of st2 rhs \<noteq> Some INTEGER"
  shows "evalAssignmentExpr ev (SubscriptExpr left right) ''='' expr scope st =
    Throw (Error ''error: subscript expression expects integer argument'') st2"
  using assms unfolding tag_of_INTEGER
  by (auto simp: evalAssignmentExpr_def andThen_def split: option.splits RuntimeValue.splits)

lemma assign_subscript_checked:
  assumes "ev left scope st = Normal lhs st1" and "ev right scope st1 = Normal rhs st2"
    and "cell_at st2 lhs = Some (StringValue b)" and "cell_at st2 rhs = Some (IntegerValue i)"
  shows "evalAssignmentExpr ev (SubscriptExpr left right) ''='' expr scope st =
    (if int (length (buffer_at st2 b)) \<le> i then
       Throw (Error ''error: attempting to index outside of string range'') st2
     else
       andThen (ev expr scope st2) (\<lambda>v st3.
         case cell_at st3 v of
           Some (IntegerValue x) \<Rightarrow>
             Normal v (buffer_store b (as_bigint (cell_at st3 rhs)) x st3)
         | _ \<Rightarrow> Throw (Error
             ''error: string index can only be assigned to type integer'') st3))"
  using assms by (simp add: evalAssignmentExpr_def andThen_def)

lemma excess_bits_2_53_1: "excess_bits 9007199254740993 = Suc 0"
  by (subst excess_bits.simps) (simp add: excess_bits_small)

lemma number_of_bigint_2_53_1: "number_of_bigint 9007199254740993 = Some 9007199254740992"
  unfolding number_of_bigint_def Let_def
  by (simp add: excess_bits_2_53_1)

text \<open>
  Claim C10 says that the byte stored is \<open>v mod 256\<close> for every Integer \<open>v\<close>. The store goes
  through \<^verbatim>\<open>Number(v)\<close>, which rounds to 53 significant bits: for \<open>v = 2 ^ 53 + 1\<close> the
  number is \<open>2 ^ 53\<close> and the byte stored is 0, while \<open>v mod 256 = 1\<close>.
\<close>

theorem subscript_assignment_large_counterexample:
  "evaluate plain_host (Suc (Suc 0))
     (AssignmentExpr (SubscriptExpr (StringLiteral 0) (IntegerLiteral 1)) ''=''
        (IntegerLiteral 9007199254740993))
     globalScope (empty_state\<lparr>buffers := [[104, 105]]\<rparr>) =
   Normal (Addr 2)
     \<lparr>heap = [StringValue 0, IntegerValue 1, IntegerValue 9007199254740993], objects = [],
      buffers = [[104, 0]], frames = [[]]\<rparr>
   \<and> (9007199254740993 :: int) mod 256 = 1"
  by (simp add: run_simps number_of_bigint_2_53_1 to_uint8_def)

text \<open>
  Claim C10, amended. In \<^verbatim>\<open>s[i] = v\<close>, let \<open>s\<close> and \<open>i\<close> have been evaluated. If \<open>s\<close> is not a
  String, \<open>i\<close> not an Integer, or \<open>i\<close> not below the length of \<open>s\<close>, the assignment fails in
  the store these two evaluations left, whatever \<open>v\<close> is: \<open>v\<close> is not evaluated. If they are
  and \<open>0 \<le> i\<close>, \<open>v\<close> is evaluated next and its failure is the failure of the assignment. If
  \<open>v\<close> evaluates to an Integer \<open>x\<close>, and this evaluation changed neither the index object
  nor the length of the buffer, the byte at position \<open>i\<close> becomes the low byte of
  \<^verbatim>\<open>Number(x)\<close>, which is \<open>x mod 256\<close> whenever \<open>\<bar>x\<bar> \<le> 2 ^ 53\<close>, nothing else changes, and
  the value of the assignment is the value object of \<open>v\<close> itself, still holding \<open>x\<close>.
\<close>

theorem subscript_assignment:
  fixes h :: "'f host"
  assumes "evaluate h n left scope st = Normal lhs st1"
    and "evaluate h n right scope st1 = Normal rhs st2"
  shows
    "(tag_of st2 lhs \<noteq> Some STRING \<longrightarrow>
        evaluate h (Suc n) (AssignmentExpr (SubscriptExpr left right) ''='' expr) scope st =
          Throw (Error ''error: lhs of subscript expresssion must be a string'') st2)
   \<and> (\<forall>b. cell_at st2 lhs = Some (StringValue b) \<and> tag_of st2 rhs \<noteq> Some INTEGER \<longrightarrow>
        evaluate h (Suc n) (AssignmentExpr (SubscriptExpr left right) ''='' expr) scope st =
          Throw (Error ''error: subscript expression expects integer argument'') st2)
   \<and> (\<forall>b i. cell_at st2 lhs = Some (StringValue b) \<and>
        cell_at st2 rhs = Some (IntegerValue i) \<and> int (length (buffer_at st2 b)) \<le> i \<longrightarrow>
        evaluate h (Suc n) (AssignmentExpr (SubscriptExpr left right) ''='' expr) scope st =
          Throw (Error ''error: attempting to index outside of string range'') st2)
   \<and> (\<forall>b i. cell_at st2 lhs = Some (StringValue b) \<and>
        cell_at st2 rhs = Some (IntegerValue i) \<and> 0 \<le> i \<and> i < int (length (buffer_at st2 b)) \<longrightarrow>
        (\<forall>e st3. evaluate h n expr scope st2 = Throw e st3 \<longrightarrow>
           evaluate h (Suc n) (AssignmentExpr (SubscriptExpr left right) ''='' expr) scope st =
             Throw e st3)
      \<and> (\<forall>v st3 x. evaluate h n expr scope st2 = Normal v st3 \<and>
           cell_at st3 v = Some (IntegerValue x) \<and>
           cell_at st3 rhs = Some (IntegerValue i) \<and>
           length (buffer_at st3 b) = length (buffer_at st2 b) \<longrightarrow>
           evaluate h (Suc n) (AssignmentExpr (SubscriptExpr left right) ''='' expr) scope st =
             Normal v (st3\<lparr>buffers := (buffers st3)
               [b := (buffer_at st3 b)[nat i := to_uint8 (number_of_bigint x)]]\<rparr>)
         \<and> (\<bar>x\<bar> \<le> 2 ^ 53 \<longrightarrow> uint (to_uint8 (number_of_bigint x)) = x mod 256)))"
proof (intro conjI allI impI)
  assume "tag_of st2 lhs \<noteq> Some STRING"
  with assms show "evaluate h (Suc n) (AssignmentExpr (SubscriptExpr left right) ''='' expr)
      scope st = Throw (Error ''error: lhs of subscript expresssion must be a string'') st2"
    by (simp add: assign_subscript_not_string)
next
  fix b
  assume "cell_at st2 lhs = Some (StringValue b) \<and> tag_of st2 rhs \<noteq> Some INTEGER"
  with assms show "evaluate h (Suc n) (AssignmentExpr (SubscriptExpr left right) ''='' expr)
      scope st = Throw (Error ''error: subscript expression expects integer argument'') st2"
    by (simp add: assign_subscript_not_integer)
next
  fix b i
  assume "cell_at st2 lhs = Some (StringValue b) \<and>
        cell_at st2 rhs = Some (IntegerValue i) \<and> int (length (buffer_at st2 b)) \<le> i"
  with assms show "evaluate h (Suc n) (AssignmentExpr (SubscriptExpr left right) ''='' expr)
      scope st = Throw (Error ''error: attempting to index outside of string range'') st2"
    by (simp add: assign_subscript_checked)
next
  fix b i e st3
  assume "cell_at st2 lhs = Some (StringValue b) \<and>
        cell_at st2 rhs = Some (IntegerValue i) \<and> 0 \<le> i \<and> i < int (length (buffer_at st2 b))"
    and "evaluate h n expr scope st2 = Throw e st3"
  with assms show "evaluate h (Suc n) (AssignmentExpr (SubscriptExpr left right) ''='' expr)
      scope st = Throw e st3"
    by (simp add: assign_subscript_checked andThen_def)
next
  fix b i v st3 x
  assume "cell_at st2 lhs = Some (StringValue b) \<and>
        cell_at st2 rhs = Some (IntegerValue i) \<and> 0 \<le> i \<and> i < int (length (buffer_at st2 b))"
    and "evaluate h n expr scope st2 = Normal v st3 \<and>
           cell_at st3 v = Some (IntegerValue x) \<and>
           cell_at st3 rhs = Some (IntegerValue i) \<and>
           length (buffer_at st3 b) = length (buffer_at st2 b)"
  with assms show "evaluate h (Suc n) (AssignmentExpr (SubscriptExpr left right) ''='' expr)
      scope st = Normal v (st3\<lparr>buffers := (buffers st3)
               [b := (buffer_at st3 b)[nat i := to_uint8 (number_of_bigint x)]]\<rparr>)"
    by (simp add: assign_subscript_checked andThen_def buffer_store_def as_bigint_def)
next
  fix x :: int
  assume "\<bar>x\<bar> \<le> 2 ^ 53"
  then show "uint (to_uint8 (number_of_bigint x)) = x mod 256"
    by (rule to_uint8_exact)
qed

text \<open>The theorem at work on \<^verbatim>\<open>"hi"[0] = 72\<close>.\<close>

theorem subscript_assignment_witness:
  "evaluate plain_host (Suc (Suc 0))
     (AssignmentExpr (SubscriptExpr (StringLiteral 0) (IntegerLiteral 0)) ''=''
        (IntegerLiteral 72))
     globalScope (empty_state\<lparr>buffers := [[104, 105]]\<rparr>) =
   Normal (Addr 2)
     \<lparr>heap = [StringValue 0, IntegerValue 0, IntegerValue 72], objects = [],
      buffers = [[72, 105]], frames = [[]]\<rparr>
   \<and> uint (to_uint8 (number_of_bigint 72)) = 72 mod 256"
proof -
  let ?s0 = "empty_state\<lparr>buffers := [[104, 105]]\<rparr>"
  let ?s1 = "\<lparr>heap = [StringValue 0], objects = [], buffers = [[104, 105]], frames = [[]]\<rparr>
      :: unit state"
  let ?s2 = "\<lparr>heap = [StringValue 0, IntegerValue 0], objects = [], buffers = [[104, 105]],
      frames = [[]]\<rparr> :: unit state"
  let ?s3 = "\<lparr>heap = [StringValue 0, IntegerValue 0, IntegerValue 72], objects = [],
      buffers = [[104, 105]], frames = [[]]\<rparr> :: unit state"
  have l: "evaluate plain_host (Suc 0) (StringLiteral 0) globalScope ?s0 = Normal (Addr 0) ?s1"
    by (simp add: run_simps)
  have r: "evaluate plain_host (Suc 0) (IntegerLiteral 0) globalScope ?s1 = Normal (Addr 1) ?s2"
    by (simp add: run_simps)
  have v: "evaluate plain_host (Suc 0) (IntegerLiteral 72) globalScope ?s2 = Normal (Addr 2) ?s3"
    by (simp add: run_simps)
  have c: "cell_at ?s2 (Addr 0) = Some (StringValue 0) \<and>
      cell_at ?s2 (Addr 1) = Some (IntegerValue 0) \<and> (0::int) \<le> 0 \<and>
      0 < int (length (buffer_at ?s2 0))"
    by (simp add: buffer_at_def)
  have d: "cell_at ?s3 (Addr 2) = Some (IntegerValue 72) \<and>
      cell_at ?s3 (Addr 1) = Some (IntegerValue 0) \<and>
      length (buffer_at ?s3 0) = length (buffer_at ?s2 0)"
    by (simp add: buffer_at_def)
  have e: "\<bar>72 :: int\<bar> \<le> 2 ^ 53"
    by simp
  from subscript_assignment [OF l r, of "IntegerLiteral 72"] c v d e
  have "evaluate plain_host (Suc (Suc 0))
     (AssignmentExpr (SubscriptExpr (StringLiteral 0) (IntegerLiteral 0)) ''=''
        (IntegerLiteral 72)) globalScope ?s0 =
     Normal (Addr 2) (?s3\<lparr>buffers := (buffers ?s3)
               [0 := (buffer_at ?s3 0)[nat 0 := to_uint8 (number_of_bigint 72)]]\<rparr>)
     \<and> uint (to_uint8 (number_of_bigint 72)) = 72 mod 256"
    by blast
  moreover have "to_uint8 (number_of_bigint 72) = 72"
    using number_of_bigint_exact [OF e] by (simp add: to_uint8_def)
  ultimately show ?thesis
    by (simp add: buffer_at_def)
qed

subsection \<open>String concatenation\<close>

lemma fold_update_length [simp]:
  "length (fold (\<lambda>i a. a[i := f i]) ixs a) = length a"
  by (induction ixs arbitrary: a) auto

lemma fold_update_nth:
  "k < length a \<Longrightarrow>
   fold (\<lambda>i a. a[i := f i]) ixs a ! k = (if k \<in> set ixs then f k else a ! k)"
  by (induction ixs arbitrary: a) (auto simp: nth_list_update)

text \<open>
  What the two copy loops compute: the left operand, then the right operand \<^emph>\<open>from the
  position where the left one ends\<close>, then zeros up to the sum of the lengths.
\<close>

lemma concat_buffers_eq:
  "concat_buffers l r = l @ drop (length l) r @ replicate (min (length l) (length r)) 0"
proof (rule nth_equalityI)
  show "length (concat_buffers l r) =
      length (l @ drop (length l) r @ replicate (min (length l) (length r)) 0)"
    by (simp add: concat_buffers_def Let_def)
next
  fix k
  assume "k < length (concat_buffers l r)"
  then have k: "k < length l + length r"
    by (simp add: concat_buffers_def Let_def)
  then show "concat_buffers l r ! k =
      (l @ drop (length l) r @ replicate (min (length l) (length r)) 0) ! k"
    by (auto simp: concat_buffers_def Let_def fold_update_nth u8_read_def nth_append min_def)
qed

lemma binary_plus_strings:
  assumes "cell_at st lhs = Some (StringValue p)" and "cell_at st rhs = Some (StringValue q)"
  shows "binary_plus h lhs rhs st =
    Normal (Addr (length (heap st)))
      (st\<lparr>buffers := buffers st @ [concat_buffers (buffer_at st p) (buffer_at st q)],
          heap := heap st @ [StringValue (length (buffers st))]\<rparr>)"
  using assms
  by (simp add: binary_plus_def tag_of_def new_buffer_def alloc_def as_Uint8Array_def)

text \<open>
  Claim C1 (the code departs from it). The result of \<^verbatim>\<open>+\<close> on two Strings is a new buffer
  and the operands' buffers are left as they were, but the new buffer is not the
  concatenation: the second copy loop reads the right operand at the index it writes.
  For \<^verbatim>\<open>"a" + "b"\<close> the new buffer holds the bytes 97, 0 and not 97, 98.
\<close>

theorem string_plus_second_operand:
  "evaluate plain_host (Suc (Suc 0)) (BinaryExpr (StringLiteral 0) ''+'' (StringLiteral 1))
     globalScope (empty_state\<lparr>buffers := [[97], [98]]\<rparr>) =
   Normal (Addr 2)
     \<lparr>heap = [StringValue 0, StringValue 1, StringValue 2], objects = [],
      buffers = [[97], [98], [97, 0]], frames = [[]]\<rparr>"
  by (simp add: run_simps as_Uint8Array_def concat_buffers_eq)

subsection \<open>The unary operators\<close>

text \<open>
  \<^verbatim>\<open>evalUnaryExpr\<close> writes the negation into the value object its operand evaluated to and
  returns that object. An identifier evaluates to the object its binding refers to.
\<close>

lemma not_of_identifier:
  assumes "lookupVar scope x st = Normal r st" and "cell_at st r = Some (BooleanValue b)"
  shows "evaluate h (Suc (Suc n)) (UnaryExpr ''!'' (IdentifierExpr x)) scope st =
    Normal r (set_cell r (BooleanValue (\<not> b)) st)"
  using assms by (simp add: evalUnaryExpr_def evalIdentifierExpr_def andThen_def)

lemma minus_of_identifier:
  assumes "lookupVar scope x st = Normal r st" and "cell_at st r = Some (IntegerValue i)"
  shows "evaluate h (Suc (Suc n)) (UnaryExpr ''-'' (IdentifierExpr x)) scope st =
    Normal r (set_cell r (IntegerValue (- i)) st)"
  using assms by (simp add: evalUnaryExpr_def evalIdentifierExpr_def andThen_def)

text \<open>
  Claim C3 (the code departs from it). \<^verbatim>\<open>!x\<close> and \<^verbatim>\<open>-x\<close> return the negation, but they
  change what \<open>x\<close> is bound to: after \<^verbatim>\<open>var x = true; !x;\<close> the variable \<open>x\<close> holds
  \<^verbatim>\<open>false\<close>, and after \<^verbatim>\<open>var i = 5; -i;\<close> the variable \<open>i\<close> holds \<open>-5\<close>.
\<close>

theorem unary_changes_binding:
  "interpret_stmts plain_host (Suc (Suc (Suc 0)))
     [VarStmt ''x'' (BooleanLiteral True),
      ExprStmt (UnaryExpr ''!'' (IdentifierExpr ''x''))] globalScope empty_state =
   Normal (Addr 3)
     \<lparr>heap = [NullValue, BooleanValue False, NullValue, NullValue], objects = [],
      buffers = [], frames = [[(''x'', Addr 1)]]\<rparr>
   \<and> interpret_stmts plain_host (Suc (Suc (Suc 0)))
     [VarStmt ''i'' (IntegerLiteral 5),
      ExprStmt (UnaryExpr ''-'' (IdentifierExpr ''i''))] globalScope empty_state =
   Normal (Addr 3)
     \<lparr>heap = [NullValue, IntegerValue (- 5), NullValue, NullValue], objects = [],
      buffers = [], frames = [[(''i'', Addr 1)]]\<rparr>"
  by (simp add: run_simps)

subsection \<open>Reading a position of a string\<close>

lemma subscript_in_range:
  assumes "ev left scope st = Normal lhs st1" and "ev right scope st1 = Normal rhs st2"
    and "cell_at st2 lhs = Some (StringValue b)" and "cell_at st2 rhs = Some (IntegerValue i)"
    and "0 \<le> i" and "i < int (length (buffer_at st2 b))"
  shows "evalSubscriptExpr ev left right scope st =
      Normal (Addr (length (heap st2)))
        (st2\<lparr>heap := heap st2 @ [IntegerValue (uint (buffer_at st2 b ! nat i))]\<rparr>)"
    and "0 \<le> uint (buffer_at st2 b ! nat i)" and "uint (buffer_at st2 b ! nat i) < 256"
proof -
  show "evalSubscriptExpr ev left right scope st =
      Normal (Addr (length (heap st2)))
        (st2\<lparr>heap := heap st2 @ [IntegerValue (uint (buffer_at st2 b ! nat i))]\<rparr>)"
    using assms by (simp add: evalSubscriptExpr_def andThen_def alloc_def)
  show "0 \<le> uint (buffer_at st2 b ! nat i)"
    by simp
  show "uint (buffer_at st2 b ! nat i) < 256"
    using uint_bounded [of "buffer_at st2 b ! nat i"] by simp
qed

lemma subscript_beyond_end:
  assumes "ev left scope st = Normal lhs st1" and "ev right scope st1 = Normal rhs st2"
    and "cell_at st2 lhs = Some (StringValue b)" and "cell_at st2 rhs = Some (IntegerValue i)"
    and "int (length (buffer_at st2 b)) \<le> i"
  shows "evalSubscriptExpr ev left right scope st =
      Throw (Error ''error: attempting to index outside of string range'') st2"
  using assms by (simp add: evalSubscriptExpr_def andThen_def)

lemma subscript_negative:
  assumes "ev left scope st = Normal lhs st1" and "ev right scope st1 = Normal rhs st2"
    and "cell_at st2 lhs = Some (StringValue b)" and "cell_at st2 rhs = Some (IntegerValue i)"
    and "i < 0"
  shows "evalSubscriptExpr ev left right scope st =
      Throw (TypeError ''Cannot convert undefined to a BigInt'') st2"
  using assms by (simp add: evalSubscriptExpr_def andThen_def)

text \<open>
  Claim C4 (the code departs from it). An index within the string yields the byte, a
  number from 0 to 255, and an index at or beyond the length fails with the range error.
  The bounds check has no lower bound, though: a negative index passes it, the buffer
  read yields \<^verbatim>\<open>undefined\<close>, and what fails is the host's conversion to \<^verbatim>\<open>BigInt\<close>, with
  a \<^verbatim>\<open>TypeError\<close> and not with the range error. So it is for \<^verbatim>\<open>"hi"[-1]\<close>.
\<close>

theorem subscript_negative_index:
  "evaluate plain_host (Suc (Suc 0)) (SubscriptExpr (StringLiteral 0) (IntegerLiteral (- 1)))
     globalScope (empty_state\<lparr>buffers := [[104, 105]]\<rparr>) =
   Throw (TypeError ''Cannot convert undefined to a BigInt'')
     \<lparr>heap = [StringValue 0, IntegerValue (- 1)], objects = [], buffers = [[104, 105]],
      frames = [[]]\<rparr>"
  by (simp add: run_simps)

subsection \<open>Division and remainder by zero\<close>

lemma divide_integer_by_zero:
  assumes "cell_at st lhs = Some (IntegerValue i)" and "cell_at st rhs = Some (IntegerValue 0)"
  shows "binary_divide h lhs rhs st = Throw (Error ''error: division by zero not allowed'') st"
  using assms by (simp add: binary_divide_def tag_of_def as_bigint_def)

lemma divide_number_by_zero:
  assumes "cell_at st lhs = Some (FloatValue x)" and "cell_at st rhs = Some (FloatValue y)"
    and "feq h y (fzero h)"
  shows "binary_divide h lhs rhs st = Throw (Error ''error: division by zero not allowed'') st"
  using assms by (simp add: binary_divide_def tag_of_def as_number_def)

lemma modulo_integer_by_zero:
  assumes "cell_at st lhs = Some (IntegerValue i)" and "cell_at st rhs = Some (IntegerValue 0)"
  shows "binary_modulo h lhs rhs st = Throw (RangeError ''Division by zero'') st"
  using assms by (simp add: binary_modulo_def tag_of_def as_bigint_def)

lemma modulo_number:
  assumes "cell_at st lhs = Some (FloatValue x)" and "cell_at st rhs = Some (FloatValue y)"
  shows "binary_modulo h lhs rhs st =
    Normal (Addr (length (heap st))) (st\<lparr>heap := heap st @ [FloatValue (fmod h x y)]\<rparr>)"
  using assms by (simp add: binary_modulo_def tag_of_def as_number_def alloc_def)

text \<open>
  Claim C5 (the code departs from it). \<^verbatim>\<open>/\<close> checks its right operand and fails with the
  division error for an Integer and for a Float zero. \<^verbatim>\<open>%\<close> has no such check: for two
  Integers the host itself throws a \<^verbatim>\<open>RangeError\<close>, and for two Floats, zero or not, the
  expression returns a Float, whatever the host's arithmetic is. So \<^verbatim>\<open>x % y\<close> on Float
  literals never fails, \<^verbatim>\<open>1.0 % 0.0\<close> included.
\<close>

theorem float_modulo_returns:
  "evaluate h (Suc (Suc n)) (BinaryExpr (FloatLiteral x) ''%'' (FloatLiteral y)) scope st =
   Normal (Addr (length (heap st) + 2))
     (st\<lparr>heap := heap st @ [FloatValue x, FloatValue y, FloatValue (fmod h x y)]\<rparr>)"
  by (simp add: evalBinaryExpr_def andThen_def alloc_def binary_modulo_def tag_of_def
      as_number_def nth_append)

subsection \<open>Member lookup\<close>

lemma member_own_key:
  assumes "ev left scope st = Normal parentVal st1"
    and "cell_at st1 parentVal = Some (ObjectValue m)"
    and "map_of (object_at st1 m) k = Some v"
  shows "evalMemberExpr ev left (IdentifierExpr k) scope st = Normal v st1"
  using assms by (simp add: evalMemberExpr_def andThen_def obj_get_def)

lemma member_absent_key:
  assumes "ev left scope st = Normal parentVal st1"
    and "cell_at st1 parentVal = Some (ObjectValue m)"
    and "map_of (object_at st1 m) k = None" and "k \<notin> set objectPrototypeKeys"
  shows "evalMemberExpr ev left (IdentifierExpr k) scope st =
    Throw (Error (''error: field '' @ k @ '' is not present on calling object'')) st1"
  using assms by (simp add: evalMemberExpr_def andThen_def obj_get_def)

lemma member_prototype_key:
  assumes "ev left scope st = Normal parentVal st1"
    and "cell_at st1 parentVal = Some (ObjectValue m)"
    and "map_of (object_at st1 m) k = None" and "k \<in> set objectPrototypeKeys"
  shows "evalMemberExpr ev left (IdentifierExpr k) scope st = Normal (ObjectPrototype k) st1"
  using assms by (simp add: evalMemberExpr_def andThen_def obj_get_def)

text \<open>
  Claim C6 (the code departs from it). A key that was inserted yields its value, and a key
  that was not fails with the field error unless the host's \<^verbatim>\<open>Object.prototype\<close> has a
  property of that name: the dictionary is a plain host object, and the lookup
  \<^verbatim>\<open>parentVal.value[child.symbol]\<close> finds inherited properties too. On the empty object
  \<^verbatim>\<open>{}\<close> the member \<^verbatim>\<open>toString\<close> is found, and what the expression returns is not even a
  runtime value.
\<close>

theorem member_inherited_key:
  "evaluate plain_host (Suc (Suc 0))
     (MemberExpr (ObjectLiteralExpr []) (IdentifierExpr ''toString'')) globalScope empty_state =
   Normal (ObjectPrototype ''toString'')
     \<lparr>heap = [ObjectValue 0], objects = [[]], buffers = [], frames = [[]]\<rparr>"
  by (simp add: run_simps objectPrototypeKeys_def)

subsection \<open>String literals\<close>

text \<open>
  A string literal evaluates to a new value object around the buffer of the node itself;
  no buffer is created.
\<close>

lemma string_literal_value:
  "evaluate h (Suc n) (StringLiteral b) scope st =
     Normal (Addr (length (heap st))) (st\<lparr>heap := heap st @ [StringValue b]\<rparr>)"
  by (simp add: alloc_def)

text \<open>
  Claim C7 (the code departs from it). Two evaluations of one string literal share the
  node's buffer. In the program
  \<^verbatim>\<open>var f = fn () { return "hi"; }; f()[0] = 72; var b = f()[0];\<close>
  the assignment writes into the buffer of the literal node, which then reads
  \<^verbatim>\<open>"Hi"\<close>, and the second call of \<open>f\<close> sees it: \<open>b\<close> is 72, not 104.
\<close>

theorem string_literal_shares_buffer:
  "interpret_stmts plain_host (Suc (Suc (Suc (Suc (Suc (Suc 0))))))
     [VarStmt ''f'' (FunctionLiteralExpr 0 [] [ReturnStmt (StringLiteral 0)]),
      ExprStmt (AssignmentExpr
        (SubscriptExpr (CallExpr (IdentifierExpr ''f'') []) (IntegerLiteral 0)) ''=''
        (IntegerLiteral 72)),
      VarStmt ''b'' (SubscriptExpr (CallExpr (IdentifierExpr ''f'') []) (IntegerLiteral 0))]
     globalScope (empty_state\<lparr>buffers := [[104, 105]]\<rparr>) =
   Normal (Addr 10)
     \<lparr>heap = [NullValue, FunctionValue globalScope 0 [] [ReturnStmt (StringLiteral 0)],
              NullValue, StringValue 0, IntegerValue 0, IntegerValue 72, NullValue,
              StringValue 0, IntegerValue 0, IntegerValue 72, NullValue],
      objects = [], buffers = [[72, 105]],
      frames = [[(''f'', Addr 1), (''b'', Addr 9)], [], []]\<rparr>"
  by (simp add: run_simps number_of_bigint_exact to_uint8_def)

end
